theory Spec2Isabelle
  imports Main
begin

section \<open>Strings as the scraper uses them\<close>

text \<open>
  A \<open>string\<close> stands for a JavaScript string whose code units are all below 256:
  a \<open>char\<close> is the code unit, that is the character of that code point
  (U+0000 to U+00FF). Strings with other characters are outside the model.

  \<open>String.prototype.toLowerCase\<close> maps, in this range, the letters \<open>A\<close> to
  \<open>Z\<close> and the upper case letters U+00C0 to U+00DE (all of them but the
  multiplication sign U+00D7) to the character 32 code points higher, and leaves
  every other character alone.
\<close>

definition upper_letters :: string where
  "upper_letters = ''ABCDEFGHIJKLMNOPQRSTUVWXYZ''"

definition lower_letters :: string where
  "lower_letters = ''abcdefghijklmnopqrstuvwxyz''"

definition latin1_upper :: string where
  "latin1_upper =
     [CHR 0xC0, CHR 0xC1, CHR 0xC2, CHR 0xC3, CHR 0xC4, CHR 0xC5, CHR 0xC6, CHR 0xC7,
      CHR 0xC8, CHR 0xC9, CHR 0xCA, CHR 0xCB, CHR 0xCC, CHR 0xCD, CHR 0xCE, CHR 0xCF,
      CHR 0xD0, CHR 0xD1, CHR 0xD2, CHR 0xD3, CHR 0xD4, CHR 0xD5, CHR 0xD6,
      CHR 0xD8, CHR 0xD9, CHR 0xDA, CHR 0xDB, CHR 0xDC, CHR 0xDD, CHR 0xDE]"

definition latin1_lower :: string where
  "latin1_lower =
     [CHR 0xE0, CHR 0xE1, CHR 0xE2, CHR 0xE3, CHR 0xE4, CHR 0xE5, CHR 0xE6, CHR 0xE7,
      CHR 0xE8, CHR 0xE9, CHR 0xEA, CHR 0xEB, CHR 0xEC, CHR 0xED, CHR 0xEE, CHR 0xEF,
      CHR 0xF0, CHR 0xF1, CHR 0xF2, CHR 0xF3, CHR 0xF4, CHR 0xF5, CHR 0xF6,
      CHR 0xF8, CHR 0xF9, CHR 0xFA, CHR 0xFB, CHR 0xFC, CHR 0xFD, CHR 0xFE]"

definition toLowerCase_char :: "char \<Rightarrow> char" where
  "toLowerCase_char c =
     (case map_of (zip (upper_letters @ latin1_upper) (lower_letters @ latin1_lower)) c of
        None \<Rightarrow> c
      | Some l \<Rightarrow> l)"

definition toLowerCase :: "string \<Rightarrow> string" where
  "toLowerCase s = map toLowerCase_char s"

text \<open>
  \<open>String.prototype.trim\<close> strips white space and line terminators from both
  ends. In this range these are tab, line feed, vertical tab, form feed, carriage
  return, space and the no-break space U+00A0.
\<close>

definition white_space :: string where
  "white_space = [CHR 0x09, CHR 0x0A, CHR 0x0B, CHR 0x0C, CHR 0x0D, CHR 0x20, CHR 0xA0]"

definition is_space :: "char \<Rightarrow> bool" where
  "is_space c = (c \<in> set white_space)"

definition trim :: "string \<Rightarrow> string" where
  "trim s = rev (dropWhile is_space (rev (dropWhile is_space s)))"

fun startsWith :: "string \<Rightarrow> string \<Rightarrow> bool" where
  "startsWith s [] = True"
| "startsWith [] (p # ps) = False"
| "startsWith (c # cs) (p # ps) = (c = p \<and> startsWith cs ps)"

text \<open>\<open>str_includes s p\<close> is \<open>s.includes(p)\<close>: \<open>p\<close> occurs in \<open>s\<close> as a substring.\<close>

fun str_includes :: "string \<Rightarrow> string \<Rightarrow> bool" where
  "str_includes [] p = (p = [])"
| "str_includes (c # cs) p = (startsWith (c # cs) p \<or> str_includes cs p)"


section \<open>Task generation: \<open>createIndeedSearchTasks\<close>\<close>

record search_task =
  jobType :: string
  location :: string
  salaryMin :: int
  pageNumber :: int
  isFirstPage :: bool

text \<open>
  The parameter object of \<open>createIndeedSearchTasks\<close>: a field that is absent
  (\<open>None\<close>) takes the default of the destructuring pattern.
\<close>

record task_params =
  p_location :: "string option"
  p_salaryMin :: "int option"
  p_maxPages :: "int option"
  p_jobTypes :: "string list option"

definition default_jobTypes :: "string list" where
  "default_jobTypes =
     [''restaurant manager'', ''executive chef'', ''sous chef'', ''kitchen manager'',
      ''culinary director'', ''food service manager'', ''private chef'', ''restaurant chef'']"

definition make_task :: "string \<Rightarrow> int \<Rightarrow> string \<Rightarrow> int \<Rightarrow> search_task" where
  "make_task loc sal jt page =
     \<lparr>jobType = jt, location = loc, salaryMin = sal, pageNumber = page,
      isFirstPage = (page = 0)\<rparr>"

text \<open>The inner \<open>for (let page = 0; page < maxPages; page++)\<close>, pushing onto \<open>tasks\<close>.\<close>

function page_loop ::
  "string \<Rightarrow> int \<Rightarrow> int \<Rightarrow> string \<Rightarrow> int \<Rightarrow> search_task list \<Rightarrow> search_task list" where
  "page_loop loc sal maxPages jt page tasks =
     (if page < maxPages
      then page_loop loc sal maxPages jt (page + 1) (tasks @ [make_task loc sal jt page])
      else tasks)"
  by pat_completeness auto
termination
  by (relation "measure (\<lambda>(loc, sal, maxPages, jt, page, tasks). nat (maxPages - page))") auto

declare page_loop.simps [simp del]

text \<open>The outer \<open>jobTypes.forEach\<close>.\<close>

fun jobTypes_forEach ::
  "string \<Rightarrow> int \<Rightarrow> int \<Rightarrow> string list \<Rightarrow> search_task list \<Rightarrow> search_task list" where
  "jobTypes_forEach loc sal maxPages [] tasks = tasks"
| "jobTypes_forEach loc sal maxPages (jt # jts) tasks =
     jobTypes_forEach loc sal maxPages jts (page_loop loc sal maxPages jt 0 tasks)"

definition createIndeedSearchTasks :: "task_params \<Rightarrow> search_task list" where
  "createIndeedSearchTasks params =
     (let loc = (case p_location params of None \<Rightarrow> ''United States'' | Some l \<Rightarrow> l);
          sal = (case p_salaryMin params of None \<Rightarrow> 55000 | Some s \<Rightarrow> s);
          maxPages = (case p_maxPages params of None \<Rightarrow> 5 | Some n \<Rightarrow> n);
          jobTypes = (case p_jobTypes params of None \<Rightarrow> default_jobTypes | Some js \<Rightarrow> js)
      in jobTypes_forEach loc sal maxPages jobTypes [])"

text \<open>A concrete parameter object: two search terms, three pages each.\<close>

definition demo_params :: task_params where
  "demo_params = \<lparr>p_location = None, p_salaryMin = None, p_maxPages = Some 3,
                  p_jobTypes = Some [''executive chef'', ''sous chef'']\<rparr>"


section \<open>The challenge handler: \<open>handleCloudflareChallenge\<close>\<close>

text \<open>
  An exception is its message (\<open>error.message\<close>). A call on the page either
  returns a value (\<open>Inr\<close>) or throws (\<open>Inl\<close>).
\<close>

type_synonym error = string

text \<open>
  What the handler can observe of the page at one instant: the answers of
  \<open>page.url()\<close>, \<open>page.title()\<close> and of the in-page read of
  \<open>document.body.textContent || ''\<close>, which elements the document holds, and
  whether \<open>page.$\<close> rejects (\<open>s_query_error\<close>).
\<close>

record snapshot =
  s_url :: "error + string"
  s_title :: "error + string"
  s_bodyText :: "error + string"
  has_data_jk :: bool
  has_job_seen_beacon :: bool
  has_SerpJobCard :: bool
  has_searchform :: bool
  has_captcha_iframe :: bool
  has_challenge_iframe :: bool
  s_query_error :: "error option"

text \<open>
  The page as the handler meets it: the snapshot at every number of milliseconds
  since the handler was called. The handler only advances its clock by its own
  \<open>setTimeout\<close> waits; the calls themselves take no time.
\<close>

type_synonym page = "nat \<Rightarrow> snapshot"

definition cloudflareIndicators :: "string list" where
  "cloudflareIndicators =
     [''just a moment'', ''checking your browser'', ''please wait'', ''ddos protection'',
      ''cloudflare'', ''ray id'', ''attention required'', ''verify you are human'',
      ''security check'', ''browser check'', ''challenge'']"

text \<open>\<open>cloudflareIndicators.some(indicator => t.toLowerCase().includes(indicator))\<close>\<close>

definition has_indicator :: "string \<Rightarrow> bool" where
  "has_indicator t = list_ex (\<lambda>indicator. str_includes (toLowerCase t) indicator) cloudflareIndicators"

text \<open>
  \<open>await page.$(selector).catch(() => null)\<close>, as a truth value: the selector is
  given by the elements it matches.
\<close>

definition query_or_null :: "snapshot \<Rightarrow> (snapshot \<Rightarrow> bool) \<Rightarrow> bool" where
  "query_or_null s selector = (case s_query_error s of Some e \<Rightarrow> False | None \<Rightarrow> selector s)"

text \<open>\<open>'[data-jk], .job_seen_beacon, .jobsearch-SerpJobCard'\<close>\<close>

definition sel_results :: "snapshot \<Rightarrow> bool" where
  "sel_results s = (has_data_jk s \<or> has_job_seen_beacon s \<or> has_SerpJobCard s)"

text \<open>\<open>'[data-jk], .job_seen_beacon, .jobsearch-SerpJobCard, #searchform'\<close>\<close>

definition sel_results_or_searchform :: "snapshot \<Rightarrow> bool" where
  "sel_results_or_searchform s =
     (has_data_jk s \<or> has_job_seen_beacon s \<or> has_SerpJobCard s \<or> has_searchform s)"

text \<open>\<open>'[data-jk], .job_seen_beacon, #searchform'\<close>\<close>

definition sel_stabilized :: "snapshot \<Rightarrow> bool" where
  "sel_stabilized s = (has_data_jk s \<or> has_job_seen_beacon s \<or> has_searchform s)"

text \<open>\<open>'iframe[src*="captcha"], iframe[src*="challenge"]'\<close>\<close>

definition sel_captcha :: "snapshot \<Rightarrow> bool" where
  "sel_captcha s = (has_captcha_iframe s \<or> has_challenge_iframe s)"

text \<open>
  The handler answers \<open>true\<close> or \<open>false\<close>. The model also records which
  \<open>return\<close> statement answered, how many polling rounds were started
  (\<open>rounds\<close>, the final value of \<open>attempts\<close>) and how many milliseconds the
  handler waited (\<open>elapsed\<close>).
\<close>

datatype exit_point =
    AlreadyOnResults
  | UrlChanged
  | ResultsDetected
  | TitleChanged
  | Stabilized
  | TimedOut
  | NoChallenge
  | HandlerError

record outcome =
  ret :: bool
  exit_at :: exit_point
  rounds :: nat
  elapsed :: nat

definition maxAttempts :: nat where
  "maxAttempts = 12"

text \<open>The \<open>try\<close> block of one polling round, read at one snapshot.\<close>

datatype round_step = Return exit_point | CaptchaWait | StillActive string

definition poll_try :: "snapshot \<Rightarrow> string \<Rightarrow> error + round_step" where
  "poll_try s lastUrl =
     (case s_url s of
        Inl e \<Rightarrow> Inl e
      | Inr currentUrl \<Rightarrow>
          (case s_title s of
             Inl e \<Rightarrow> Inl e
           | Inr currentTitle \<Rightarrow>
               if currentUrl \<noteq> lastUrl \<and> \<not> str_includes currentUrl ''challenge''
               then Inr (Return UrlChanged)
               else if query_or_null s sel_results_or_searchform
               then Inr (Return ResultsDetected)
               else if \<not> has_indicator currentTitle
                       \<and> (str_includes currentTitle ''Indeed'' \<or> str_includes currentTitle ''jobs'')
               then Inr (Return TitleChanged)
               else if query_or_null s sel_captcha
               then Inr CaptchaWait
               else Inr (StillActive currentUrl)))"

text \<open>
  The re-check inside the \<open>catch\<close> block, after the 3 second wait: \<open>True\<close>
  when it reaches \<open>return true\<close>; a title that cannot be read is swallowed by the
  inner \<open>catch (e)\<close>.
\<close>

definition recheck_after_detach :: "snapshot \<Rightarrow> bool" where
  "recheck_after_detach s =
     (case s_title s of
        Inl e \<Rightarrow> False
      | Inr newTitle \<Rightarrow> query_or_null s sel_stabilized \<or> \<not> has_indicator newTitle)"

text \<open>
  The \<open>while (attempts < maxAttempts)\<close> loop. \<open>now\<close> is the handler's clock in
  milliseconds.
\<close>

function poll_loop :: "page \<Rightarrow> string \<Rightarrow> nat \<Rightarrow> nat \<Rightarrow> outcome" where
  "poll_loop page lastUrl attempts now =
     (if attempts < maxAttempts
      then
        (case poll_try (page (now + 5000)) lastUrl of
           Inr (Return exit) \<Rightarrow>
             \<lparr>ret = True, exit_at = exit, rounds = attempts + 1, elapsed = now + 5000 + 2000\<rparr>
         | Inr CaptchaWait \<Rightarrow> poll_loop page lastUrl (attempts + 1) (now + 5000 + 10000)
         | Inr (StillActive currentUrl) \<Rightarrow> poll_loop page currentUrl (attempts + 1) (now + 5000)
         | Inl message \<Rightarrow>
             if str_includes message ''detached'' \<or> str_includes message ''destroyed''
             then
               (if recheck_after_detach (page (now + 5000 + 3000))
                then \<lparr>ret = True, exit_at = Stabilized, rounds = attempts + 1,
                      elapsed = now + 5000 + 3000\<rparr>
                else poll_loop page lastUrl (attempts + 1) (now + 5000 + 3000))
             else poll_loop page lastUrl (attempts + 1) (now + 5000))
      else \<lparr>ret = False, exit_at = TimedOut, rounds = attempts, elapsed = now\<rparr>)"
  by pat_completeness auto
termination
  by (relation "measure (\<lambda>(page, lastUrl, attempts, now). maxAttempts - attempts)") auto

declare poll_loop.simps [simp del]

text \<open>\<open>await page.title().catch(() => '')\<close>\<close>

definition title_or_empty :: "snapshot \<Rightarrow> string" where
  "title_or_empty s = (case s_title s of Inl e \<Rightarrow> [] | Inr t \<Rightarrow> t)"

text \<open>\<open>await page.evaluate(() => document.body.textContent || '').catch(() => '')\<close>\<close>

definition bodyText_or_empty :: "snapshot \<Rightarrow> string" where
  "bodyText_or_empty s = (case s_bodyText s of Inl e \<Rightarrow> [] | Inr b \<Rightarrow> b)"

text \<open>The body of the outer \<open>try\<close>: an exception that escapes it is \<open>Inl\<close>.\<close>

definition handleCloudflareChallenge_try :: "page \<Rightarrow> error + outcome" where
  "handleCloudflareChallenge_try page =
     (let initialTitle = title_or_empty (page 0) in
      case s_url (page 0) of
        Inl e \<Rightarrow> Inl e
      | Inr initialUrl \<Rightarrow>
          (let isCloudflareChallenge = has_indicator initialTitle;
               bodyText = bodyText_or_empty (page 0);
               hasCloudflareContent = has_indicator bodyText
           in if \<not> isCloudflareChallenge \<and> \<not> hasCloudflareContent
                 \<and> query_or_null (page 0) sel_results
              then Inr \<lparr>ret = True, exit_at = AlreadyOnResults, rounds = 0, elapsed = 0\<rparr>
              else if isCloudflareChallenge \<or> hasCloudflareContent
              then Inr (poll_loop page initialUrl 0 0)
              else Inr \<lparr>ret = True, exit_at = NoChallenge, rounds = 0, elapsed = 0\<rparr>))"

text \<open>
  The whole handler: the outer \<open>catch (error)\<close> turns every exception of the body
  into \<open>return false\<close>.
\<close>

definition handleCloudflareChallenge :: "page \<Rightarrow> error + outcome" where
  "handleCloudflareChallenge page =
     (case handleCloudflareChallenge_try page of
        Inl e \<Rightarrow> Inr \<lparr>ret = False, exit_at = HandlerError, rounds = 0, elapsed = 0\<rparr>
      | Inr r \<Rightarrow> Inr r)"

text \<open>Pages used as concrete inputs below.\<close>

definition indeed_url :: string where
  "indeed_url = ''https://www.indeed.com/jobs?q=executive+chef''"

text \<open>A challenge page that never moves on: the interstitial stays for ever.\<close>

definition stuck_snapshot :: snapshot where
  "stuck_snapshot =
     \<lparr>s_url = Inr indeed_url, s_title = Inr ''Checking your browser...'',
      s_bodyText = Inr ''Checking your browser before accessing indeed.com'',
      has_data_jk = False, has_job_seen_beacon = False, has_SerpJobCard = False,
      has_searchform = False, has_captcha_iframe = False, has_challenge_iframe = False,
      s_query_error = None\<rparr>"

definition stuck_page :: page where
  "stuck_page = (\<lambda>t. stuck_snapshot)"

text \<open>
  A results page that still carries a challenge title (a stale banner): job cards
  are present from the start.
\<close>

definition stale_banner_page :: page where
  "stale_banner_page = (\<lambda>t. stuck_snapshot\<lparr>s_title := Inr ''Just a moment...'', has_data_jk := True\<rparr>)"

text \<open>A clean results page: job cards, no indicator phrase in title or body.\<close>

definition results_page :: page where
  "results_page =
     (\<lambda>t. stuck_snapshot\<lparr>s_title := Inr ''Executive Chef Jobs, Employment | Indeed'',
                          s_bodyText := Inr ''Executive Chef jobs in United States'',
                          has_data_jk := True\<rparr>)"

text \<open>
  A page whose connection to the browser is lost: the title and the body cannot be
  read and every query rejects.
\<close>

definition dead_page :: page where
  "dead_page =
     (\<lambda>t. stuck_snapshot\<lparr>s_title := Inl ''Protocol error (Runtime.callFunctionOn): Target closed'',
                          s_bodyText := Inl ''Protocol error (Runtime.callFunctionOn): Target closed'',
                          s_query_error := Some ''Protocol error (DOM.querySelector): Target closed''\<rparr>)"

text \<open>
  A page object that is out of use altogether: even \<open>page.url()\<close> throws.
\<close>

definition closed_page :: page where
  "closed_page =
     (\<lambda>t. (dead_page t)\<lparr>s_url := Inl ''Requesting main frame too early!''\<rparr>)"

text \<open>
  A challenge page whose connection is lost once the handler has started to poll.
\<close>

definition dying_page :: page where
  "dying_page = (\<lambda>t. if t = 0 then stuck_snapshot else dead_page t)"


section \<open>Extraction of one job element: \<open>extractIndeedJobData\<close>\<close>

text \<open>
  A job card is the element handed to \<open>page.evaluate\<close>. The model keeps what the
  in-page function asks of it: for every selector, what the search for the first
  matching descendant gives (an exception, no element, or the element with its
  \<open>textContent\<close> and attributes), and the card's \<open>outerHTML\<close>.
\<close>

record dom_element =
  textContent :: string
  getAttribute :: "string \<Rightarrow> string option"

record job_card =
  first_match :: "string \<Rightarrow> error + dom_element option"
  outerHTML :: string

text \<open>
  \<open>element.querySelector(selector)\<close>. The DOM standard has it throw a
  \<open>SyntaxError\<close> for a selector that does not parse, before any element is
  looked at, and the empty string does not parse. Of the selectors the in-page
  function passes, the empty string of \<open>getAttr('', 'data-jk')\<close> is the only one
  of that kind.
\<close>

definition querySelector :: "job_card \<Rightarrow> string \<Rightarrow> error + dom_element option" where
  "querySelector element selector =
     (if selector = []
      then Inl ''SyntaxError: Failed to execute querySelector on Element: The provided selector is empty.''
      else first_match element selector)"

record job_data =
  j_title :: string
  j_company :: string
  j_location :: string
  j_salary :: string
  j_description :: string
  j_jobId :: string
  j_jobLink :: string
  j_postedDate :: string
  j_jobType :: string
  j_source :: string
  j_scrapedAt :: string
  j_elementHTML :: string

text \<open>Sequencing of calls that may throw: the first exception ends the evaluation.\<close>

definition and_then :: "error + 'a \<Rightarrow> ('a \<Rightarrow> error + 'b) \<Rightarrow> error + 'b" where
  "and_then r f = (case r of Inl e \<Rightarrow> Inl e | Inr v \<Rightarrow> f v)"

text \<open>\<open>getText(selector)\<close>: \<open>el ? el.textContent.trim() : ''\<close>\<close>

definition getText :: "job_card \<Rightarrow> string \<Rightarrow> error + string" where
  "getText element selector =
     and_then (querySelector element selector)
       (\<lambda>el. case el of None \<Rightarrow> Inr [] | Some e \<Rightarrow> Inr (trim (textContent e)))"

text \<open>
  \<open>getAttr(selector, attr)\<close>: \<open>el ? el.getAttribute(attr) : ''\<close>; an attribute the
  element does not have is \<open>null\<close> (\<open>None\<close>).
\<close>

definition getAttr :: "job_card \<Rightarrow> string \<Rightarrow> string \<Rightarrow> error + string option" where
  "getAttr element selector attr =
     and_then (querySelector element selector)
       (\<lambda>el. case el of None \<Rightarrow> Inr (Some []) | Some e \<Rightarrow> Inr (getAttribute e attr))"

definition titleSelectors :: "string list" where
  \<open>titleSelectors =
     [''h2 a span[title]'', ''[data-testid="job-title"] a span'', ''.jobTitle a span'',
      ''h2 span[title]'', ''.jobTitle span'', ''a[data-jk] span[title]'',
      ''.jobTitle-color-purple span'']\<close>

definition companySelectors :: "string list" where
  \<open>companySelectors =
     [''[data-testid="company-name"]'', ''.companyName'', ''span[data-testid="company-name"]'',
      ''.company'', ''a[data-testid="company-name"]'', ''.companyName a'']\<close>

definition locationSelectors :: "string list" where
  \<open>locationSelectors =
     [''[data-testid="job-location"]'', ''.companyLocation'', ''div[data-testid="job-location"]'',
      ''.location'', ''.locationsContainer'']\<close>

definition salarySelectors :: "string list" where
  \<open>salarySelectors =
     [''.salary-snippet'', ''[data-testid="attribute_snippet_testid"]'', ''.estimated-salary'',
      ''.salaryText'', ''.salary'']\<close>

definition descriptionSelectors :: "string list" where
  \<open>descriptionSelectors =
     [''.job-snippet'', ''[data-testid="job-snippet"]'', ''.summary'',
      ''.jobCardShelfContainer .summary'']\<close>

text \<open>
  \<open>for (const selector of selectors) { field = getText(selector); if (field) break; }\<close>
  on a field that starts as \<open>''\<close>: the first non-empty text, or \<open>''\<close>.
\<close>

fun first_text :: "job_card \<Rightarrow> string list \<Rightarrow> error + string" where
  "first_text element [] = Inr []"
| "first_text element (selector # selectors) =
     and_then (getText element selector)
       (\<lambda>t. if t \<noteq> [] then Inr t else first_text element selectors)"

text \<open>\<open>a || b\<close> on texts and attribute values: \<open>null\<close> and \<open>''\<close> are falsy.\<close>

definition truthy :: "string option \<Rightarrow> bool" where
  "truthy v = (case v of None \<Rightarrow> False | Some s \<Rightarrow> s \<noteq> [])"

definition or_else :: "error + string option \<Rightarrow> error + string option \<Rightarrow> error + string option" where
  "or_else a b = and_then a (\<lambda>v. if truthy v then Inr v else b)"

definition text_or :: "error + string \<Rightarrow> error + string \<Rightarrow> error + string" where
  "text_or a b = and_then a (\<lambda>t. if t \<noteq> [] then Inr t else b)"

text \<open>\<open>v || ''\<close>\<close>

definition or_empty :: "string option \<Rightarrow> string" where
  "or_empty v = (case v of None \<Rightarrow> [] | Some s \<Rightarrow> s)"

text \<open>\<open>t || placeholder\<close>\<close>

definition or_placeholder :: "string \<Rightarrow> string \<Rightarrow> string" where
  "or_placeholder t placeholder = (if t \<noteq> [] then t else placeholder)"

text \<open>
  The function evaluated in the page. \<open>scrapedAt\<close> is the answer of
  \<open>new Date().toISOString()\<close> at that moment.
\<close>

definition extract_in_page :: "string \<Rightarrow> job_card \<Rightarrow> error + job_data" where
  \<open>extract_in_page scrapedAt element =
     and_then (first_text element titleSelectors) (\<lambda>title.
     and_then (first_text element companySelectors) (\<lambda>company.
     and_then (first_text element locationSelectors) (\<lambda>location.
     and_then (first_text element salarySelectors) (\<lambda>salary.
     and_then (first_text element descriptionSelectors) (\<lambda>description.
     and_then (or_else (getAttr element [] ''data-jk'') (getAttr element ''[data-jk]'' ''data-jk''))
       (\<lambda>jobId.
     and_then (or_else (getAttr element ''h2 a'' ''href'')
              (or_else (getAttr element ''[data-testid="job-title"] a'' ''href'')
              (or_else (getAttr element ''.jobTitle a'' ''href'')
                       (getAttr element ''a[data-jk]'' ''href''))))
       (\<lambda>jobLink.
     and_then (text_or (getText element ''.date'') (getText element ''[data-testid="myJobsStateDate"]''))
       (\<lambda>postedDate.
     and_then (text_or (getText element ''.jobMetadata'') (getText element ''.jobsearch-JobMetadataHeader''))
       (\<lambda>jobType.
     Inr \<lparr>j_title = or_placeholder title ''No title found'',
          j_company = or_placeholder company ''No company found'',
          j_location = or_placeholder location ''No location found'',
          j_salary = or_placeholder salary [],
          j_description = or_placeholder description [],
          j_jobId = or_empty jobId,
          j_jobLink = (if truthy jobLink then ''https://www.indeed.com'' @ or_empty jobLink else []),
          j_postedDate = or_placeholder postedDate [],
          j_jobType = or_placeholder jobType [],
          j_source = ''Indeed Direct'',
          j_scrapedAt = scrapedAt,
          j_elementHTML = take 200 (outerHTML element)\<rparr>)))))))))\<close>

text \<open>
  \<open>extractIndeedJobData\<close>: the record, or \<open>null\<close> (\<open>None\<close>) when the
  evaluation in the page throws.
\<close>

definition extractIndeedJobData :: "string \<Rightarrow> job_card \<Rightarrow> job_data option" where
  "extractIndeedJobData scrapedAt element =
     (case extract_in_page scrapedAt element of Inl e \<Rightarrow> None | Inr jobData \<Rightarrow> Some jobData)"


section \<open>The crawler's request handler: \<open>scrapeIndeedJobs\<close>\<close>

subsection \<open>\<open>performIndeedSearch\<close>\<close>

text \<open>
  What the home page does while the search form is filled in: which controls
  \<open>page.$\<close> finds, and which of the awaited calls throw.
\<close>

record search_env =
  goto_error :: "error option"
  whatInput_found :: "error + bool"
  whereInput_found :: "error + bool"
  typing_error :: "error option"
  searchButton_found :: "error + bool"
  submit_error :: "error option"

text \<open>
  \<open>performIndeedSearch\<close> returns \<open>false\<close> when a control is missing, and its
  \<open>catch\<close> returns \<open>false\<close> for every exception.
\<close>

definition performIndeedSearch_try :: "search_env \<Rightarrow> error + bool" where
  "performIndeedSearch_try env =
     (case goto_error env of
        Some e \<Rightarrow> Inl e
      | None \<Rightarrow>
          and_then (whatInput_found env) (\<lambda>whatInput.
          and_then (whereInput_found env) (\<lambda>whereInput.
            if \<not> whatInput \<or> \<not> whereInput then Inr False
            else case typing_error env of
              Some e \<Rightarrow> Inl e
            | None \<Rightarrow>
                and_then (searchButton_found env) (\<lambda>searchButton.
                  if \<not> searchButton then Inr False
                  else case submit_error env of Some e \<Rightarrow> Inl e | None \<Rightarrow> Inr True))))"

definition performIndeedSearch :: "search_env \<Rightarrow> bool" where
  "performIndeedSearch env = (case performIndeedSearch_try env of Inl e \<Rightarrow> False | Inr b \<Rightarrow> b)"

subsection \<open>The results count\<close>

definition digits :: string where
  "digits = ''0123456789''"

definition is_digit :: "char \<Rightarrow> bool" where
  "is_digit c = (c \<in> set digits)"

definition digit_value :: "char \<Rightarrow> nat" where
  "digit_value c = (case map_of (zip digits [0 ..< 10]) c of None \<Rightarrow> 0 | Some d \<Rightarrow> d)"

text \<open>\<open>parseInt\<close> on a run of decimal digits.\<close>

definition parseInt :: "string \<Rightarrow> nat" where
  "parseInt ds = foldl (\<lambda>n c. n * 10 + digit_value c) 0 ds"

text \<open>\<open>text.match(/(\d+)/)\<close>: the first maximal run of digits, empty when there is none.\<close>

definition first_digit_run :: "string \<Rightarrow> string" where
  "first_digit_run t = takeWhile is_digit (dropWhile (\<lambda>c. \<not> is_digit c) t)"

text \<open>
  The value of \<open>totalResults\<close>, from the \<open>textContent\<close> of the count element
  (\<open>None\<close> when the page has no such element).
\<close>

definition totalResults_of :: "string option \<Rightarrow> nat" where
  "totalResults_of countElement =
     (case countElement of
        None \<Rightarrow> 0
      | Some t \<Rightarrow> (if first_digit_run t = [] then 0 else parseInt (first_digit_run t)))"

subsection \<open>One run of the handler\<close>

text \<open>
  What the page does during one run of the handler: for each call the handler
  awaits, its answer or the exception it throws. \<open>stealth_error\<close> stands for the
  set-up calls (\<open>evaluateOnNewDocument\<close>, \<open>setUserAgent\<close>,
  \<open>setExtraHTTPHeaders\<close>), \<open>count_indicator\<close> for the read of the count element's
  \<open>textContent\<close>, \<open>next_button\<close> for \<open>page.$\<close> on a next-page selector,
  \<open>click_error\<close> for the click and the wait for navigation, \<open>job_elements\<close> for
  \<open>page.$$\<close> on a job selector, and \<open>debug_error\<close> for the \<open>page.title()\<close> read
  that follows an empty search for job elements. \<open>view\<close> is the page as
  \<open>handleCloudflareChallenge\<close> meets it once the search or the pagination step is
  over. The exceptions of the warm-up navigation (\<open>warmup_error\<close>) and of
  \<open>page.close()\<close> (\<open>close_error\<close>) are swallowed where they arise, so nothing in
  the handler depends on them.
\<close>

record attempt_env =
  warmup_error :: "error option"
  stealth_error :: "error option"
  search :: search_env
  count_indicator :: "error + string option"
  next_button :: "string \<Rightarrow> error + bool"
  click_error :: "error option"
  view :: page
  close_error :: "error option"
  job_elements :: "string \<Rightarrow> error + job_card list"
  debug_error :: "error option"
  clock :: string

datatype user_data = Warmup | Search search_task

record request =
  userData :: user_data
  retryCount :: nat

text \<open>The variables of \<open>scrapeIndeedJobs\<close> that the handler updates.\<close>

record crawl_state =
  allJobs :: "job_data list"
  processedUrls :: nat
  failedUrls :: nat

text \<open>What a run does to the page, as far as the claims speak of it.\<close>

datatype action = ClickNextButton | ClosePage

text \<open>The \<open>return\<close> statement a run ends in, or the \<open>catch\<close> of the handler.\<close>

datatype handler_exit =
    WarmupDone
  | SearchFailed
  | NotEnoughResults
  | NoMorePages
  | NavigationError error
  | RetriesExceeded
  | NoJobElements
  | Extracted
  | ErrorCaught error

definition nextSelectors :: "string list" where
  \<open>nextSelectors =
     [''a[aria-label="Next Page"]'', ''a[aria-label="Next"]'', ''.np:last-child a'',
      ''nav[role="navigation"] a:last-child'']\<close>

text \<open>\<open>await page.$(s1) || await page.$(s2) || ...\<close>: is there a next button?\<close>

fun find_nextButton :: "attempt_env \<Rightarrow> string list \<Rightarrow> error + bool" where
  "find_nextButton env [] = Inr False"
| "find_nextButton env (selector # selectors) =
     and_then (next_button env selector)
       (\<lambda>found. if found then Inr True else find_nextButton env selectors)"

definition jobSelectors :: "string list" where
  "jobSelectors =
     [''[data-jk]'', ''.job_seen_beacon'', ''.slider_container .slider_item'',
      ''.jobsearch-SerpJobCard'', ''.result'']"

text \<open>
  The loop over \<open>jobSelectors\<close>: the elements of the first selector that finds
  any; a selector whose query throws is skipped.
\<close>

fun find_jobElements :: "attempt_env \<Rightarrow> string list \<Rightarrow> job_card list" where
  "find_jobElements env [] = []"
| "find_jobElements env (selector # selectors) =
     (case job_elements env selector of
        Inl e \<Rightarrow> find_jobElements env selectors
      | Inr elements \<Rightarrow> if elements \<noteq> [] then elements else find_jobElements env selectors)"

text \<open>
  The body of the extraction loop for one card: the records it pushes onto
  \<open>pageJobs\<close> (one or none). \<open>shouldExcludeCompany\<close> and
  \<open>isSalaryCompanyName\<close> are imported from \<open>bing_search_api.js\<close>; they are
  parameters here (\<open>shouldExcludeCompany c\<close> stands for
  \<open>shouldExcludeCompany(c).isExcluded\<close>).
\<close>

definition extract_card ::
  "(string \<Rightarrow> bool) \<Rightarrow> (string \<Rightarrow> bool) \<Rightarrow> string \<Rightarrow> job_card \<Rightarrow> job_data list" where
  "extract_card shouldExcludeCompany isSalaryCompanyName scrapedAt element =
     (case extractIndeedJobData scrapedAt element of
        None \<Rightarrow> []
      | Some jobData \<Rightarrow>
          if j_title jobData \<noteq> ''No title found'' \<and> j_company jobData \<noteq> ''No company found''
          then (if shouldExcludeCompany (j_company jobData) then []
                else if isSalaryCompanyName (j_company jobData) then []
                else [jobData])
          else [])"

text \<open>\<open>for (let i = 0; i < jobElements.length; i++)\<close>, pushing onto \<open>pageJobs\<close>.\<close>

fun extract_loop ::
  "(string \<Rightarrow> bool) \<Rightarrow> (string \<Rightarrow> bool) \<Rightarrow> string \<Rightarrow> job_card list \<Rightarrow> job_data list
   \<Rightarrow> job_data list" where
  "extract_loop excl sal scrapedAt [] pageJobs = pageJobs"
| "extract_loop excl sal scrapedAt (element # elements) pageJobs =
     extract_loop excl sal scrapedAt elements (pageJobs @ extract_card excl sal scrapedAt element)"

text \<open>
  The \<open>try\<close> block of the handler. Its result is the exception that escapes it
  (\<open>Inl\<close>) or the \<open>return\<close> it ends in, with the state and the actions so far.
\<close>

record run =
  ended :: "error + handler_exit"
  state :: crawl_state
  actions :: "action list"

definition count_failure :: "crawl_state \<Rightarrow> crawl_state" where
  "count_failure st = st\<lparr>failedUrls := failedUrls st + 1\<rparr>"

text \<open>From the challenge check to the end of the \<open>try\<close> block.\<close>

definition after_navigation ::
  "(string \<Rightarrow> bool) \<Rightarrow> (string \<Rightarrow> bool) \<Rightarrow> request \<Rightarrow> attempt_env \<Rightarrow> crawl_state
   \<Rightarrow> action list \<Rightarrow> run" where
  "after_navigation excl sal req env st acts =
     (case handleCloudflareChallenge (view env) of
        Inl e \<Rightarrow> \<lparr>ended = Inl e, state = st, actions = acts\<rparr>
      | Inr cloudflare \<Rightarrow>
          if \<not> ret cloudflare
          then (if retryCount req < 2
                then \<lparr>ended = Inl ''Cloudflare challenge failed - retrying with new session'',
                      state = st, actions = acts @ [ClosePage]\<rparr>
                else \<lparr>ended = Inr RetriesExceeded, state = count_failure st, actions = acts\<rparr>)
          else
            (let jobElements = find_jobElements env jobSelectors in
             if jobElements = []
             then (case debug_error env of
                     Some e \<Rightarrow> \<lparr>ended = Inl e, state = st, actions = acts\<rparr>
                   | None \<Rightarrow>
                       \<lparr>ended = Inr NoJobElements, state = count_failure st, actions = acts\<rparr>)
             else
               (let pageJobs = extract_loop excl sal (clock env) jobElements [] in
                \<lparr>ended = Inr Extracted, state = st\<lparr>allJobs := allJobs st @ pageJobs\<rparr>,
                 actions = acts\<rparr>)))"

text \<open>The pagination step of a task that is not a first page.\<close>

definition paginate ::
  "(string \<Rightarrow> bool) \<Rightarrow> (string \<Rightarrow> bool) \<Rightarrow> request \<Rightarrow> search_task \<Rightarrow> attempt_env
   \<Rightarrow> crawl_state \<Rightarrow> run" where
  "paginate excl sal req task env st =
     (case count_indicator env of
        Inl e \<Rightarrow> \<lparr>ended = Inl e, state = st, actions = []\<rparr>
      | Inr countElement \<Rightarrow>
          (let totalResults = totalResults_of countElement;
               expectedMinResults = (pageNumber task + 1) * 10
           in if int totalResults < expectedMinResults
              then \<lparr>ended = Inr NotEnoughResults, state = st, actions = []\<rparr>
              else
                (case find_nextButton env nextSelectors of
                   Inl e \<Rightarrow>
                     \<lparr>ended = Inr (NavigationError e), state = count_failure st, actions = []\<rparr>
                 | Inr nextButton \<Rightarrow>
                     if nextButton
                     then (case click_error env of
                             Some e \<Rightarrow>
                               \<lparr>ended = Inr (NavigationError e), state = count_failure st,
                                actions = [ClickNextButton]\<rparr>
                           | None \<Rightarrow> after_navigation excl sal req env st [ClickNextButton])
                     else \<lparr>ended = Inr NoMorePages, state = st, actions = []\<rparr>)))"

definition requestHandler_try ::
  "(string \<Rightarrow> bool) \<Rightarrow> (string \<Rightarrow> bool) \<Rightarrow> request \<Rightarrow> search_task \<Rightarrow> attempt_env
   \<Rightarrow> crawl_state \<Rightarrow> run" where
  "requestHandler_try excl sal req task env st =
     (case stealth_error env of
        Some e \<Rightarrow> \<lparr>ended = Inl e, state = st, actions = []\<rparr>
      | None \<Rightarrow>
          if isFirstPage task
          then (if \<not> performIndeedSearch (search env)
                then \<lparr>ended = Inr SearchFailed, state = count_failure st, actions = []\<rparr>
                else after_navigation excl sal req env st [])
          else paginate excl sal req task env st)"

text \<open>
  The handler. \<open>rejected\<close> is the exception with which the promise of the handler
  rejects, if it does: the crawler retries a request only then.
\<close>

record handled =
  rejected :: "error option"
  exit_h :: handler_exit
  final :: crawl_state
  performed :: "action list"

definition requestHandler ::
  "(string \<Rightarrow> bool) \<Rightarrow> (string \<Rightarrow> bool) \<Rightarrow> request \<Rightarrow> attempt_env \<Rightarrow> crawl_state
   \<Rightarrow> handled" where
  "requestHandler excl sal req env st0 =
     (let st = st0\<lparr>processedUrls := processedUrls st0 + 1\<rparr> in
      case userData req of
        Warmup \<Rightarrow> \<lparr>rejected = None, exit_h = WarmupDone, final = st, performed = []\<rparr>
      | Search task \<Rightarrow>
          (let r = requestHandler_try excl sal req task env st in
           case ended r of
             Inl e \<Rightarrow>
               \<lparr>rejected = None, exit_h = ErrorCaught e, final = count_failure (state r),
                performed = actions r\<rparr>
           | Inr exit \<Rightarrow>
               \<lparr>rejected = None, exit_h = exit, final = state r, performed = actions r\<rparr>))"

subsection \<open>The crawler around the handler\<close>

text \<open>
  \<open>PuppeteerCrawler\<close> is the crawlee library's. Of its contract the model keeps
  what \<open>maxRequestRetries: 2\<close> and \<open>failedRequestHandler\<close> rely on: a request
  whose handler rejects is run again, on a new page and session, with
  \<open>retryCount\<close> one higher, until \<open>retryCount\<close> has reached
  \<open>maxRequestRetries\<close>; then \<open>failedRequestHandler\<close> runs. A request whose
  handler returns is done. \<open>envs k\<close> is what the page does during the run with
  \<open>retryCount = k\<close>.
\<close>

definition maxRequestRetries :: nat where
  "maxRequestRetries = 2"

definition failedRequestHandler :: "crawl_state \<Rightarrow> crawl_state" where
  "failedRequestHandler st = st\<lparr>failedUrls := failedUrls st + 1\<rparr>"

record crawled =
  runs :: nat
  last_exit :: handler_exit
  gave_up :: bool
  result :: crawl_state
  all_performed :: "action list"

function crawl_request ::
  "(string \<Rightarrow> bool) \<Rightarrow> (string \<Rightarrow> bool) \<Rightarrow> user_data \<Rightarrow> (nat \<Rightarrow> attempt_env) \<Rightarrow> nat
   \<Rightarrow> crawl_state \<Rightarrow> action list \<Rightarrow> crawled" where
  "crawl_request excl sal task envs k st acts =
     (let h = requestHandler excl sal \<lparr>userData = task, retryCount = k\<rparr> (envs k) st in
      case rejected h of
        None \<Rightarrow>
          \<lparr>runs = k + 1, last_exit = exit_h h, gave_up = False, result = final h,
           all_performed = acts @ performed h\<rparr>
      | Some e \<Rightarrow>
          if k < maxRequestRetries
          then crawl_request excl sal task envs (k + 1) (final h) (acts @ performed h)
          else \<lparr>runs = k + 1, last_exit = exit_h h, gave_up = True,
                result = failedRequestHandler (final h), all_performed = acts @ performed h\<rparr>)"
  by pat_completeness auto
termination
  by (relation "measure (\<lambda>(excl, sal, task, envs, k, st, acts). maxRequestRetries - k)") auto

declare crawl_request.simps [simp del]


subsection \<open>Concrete job elements and runs\<close>

text \<open>
  A job card given by the text of the elements its selectors find; no element
  carries an attribute.
\<close>

definition text_element :: "string \<Rightarrow> dom_element" where
  "text_element t = \<lparr>textContent = t, getAttribute = (\<lambda>attr. None)\<rparr>"

definition card_of :: "(string \<times> string) list \<Rightarrow> job_card" where
  "card_of texts =
     \<lparr>first_match = (\<lambda>selector. Inr (map_option text_element (map_of texts selector))),
      outerHTML = ''<div class=job_seen_beacon>''\<rparr>"

text \<open>A card with a title and a company and no salary.\<close>

definition chef_texts :: "(string \<times> string) list" where
  "chef_texts = [(''h2 a span[title]'', ''Executive Chef''), (''.companyName'', '' Blue Hill '')]"

text \<open>
  A card whose only company text is a no-break space.
\<close>

definition blank_company_texts :: "(string \<times> string) list" where
  "blank_company_texts = [(''h2 a span[title]'', ''Line Cook''), (''.companyName'', [CHR 0xA0])]"

text \<open>
  Two instances of the filters: an exclusion rule that rejects one company name, and
  a salary heuristic that rejects nothing.
\<close>

definition excludes_aramark :: "string \<Rightarrow> bool" where
  "excludes_aramark companyName = (companyName = ''Aramark'')"

definition no_salary_name :: "string \<Rightarrow> bool" where
  "no_salary_name companyName = False"

definition iso_time :: string where
  "iso_time = ''2025-01-01T00:00:00.000Z''"

text \<open>
  A run in which every call succeeds: the search form is there, the count element
  reads \<open>15 jobs\<close>, there is a next button, the results page shows no challenge and
  holds one job card.
\<close>

definition good_search :: search_env where
  "good_search =
     \<lparr>goto_error = None, whatInput_found = Inr True, whereInput_found = Inr True,
      typing_error = None, searchButton_found = Inr True, submit_error = None\<rparr>"

definition good_run :: attempt_env where
  "good_run =
     \<lparr>warmup_error = None, stealth_error = None, search = good_search,
      count_indicator = Inr (Some ''15 jobs''),
      next_button = (\<lambda>selector. Inr True), click_error = None,
      view = results_page, close_error = None,
      job_elements = (\<lambda>selector. Inr (if selector = ''[data-jk]''
                                         then [card_of chef_texts] else [])),
      debug_error = None, clock = iso_time\<rparr>"

text \<open>A run in which the challenge page never moves on.\<close>

definition timeout_run :: attempt_env where
  "timeout_run = good_run\<lparr>view := stuck_page\<rparr>"

text \<open>
  The runs of one task whose challenge times out on the first two attempts and
  would be passed on the third.
\<close>

definition third_time_lucky :: "nat \<Rightarrow> attempt_env" where
  "third_time_lucky k = (if k < 2 then timeout_run else good_run)"

definition chef_task :: search_task where
  "chef_task = make_task ''United States'' 55000 ''executive chef'' 0"

definition chef_page3_task :: search_task where
  "chef_page3_task = make_task ''United States'' 55000 ''executive chef'' 2"

definition empty_state :: crawl_state where
  "empty_state = \<lparr>allJobs = [], processedUrls = 0, failedUrls = 0\<rparr>"

text \<open>The request for the third page (page number 2) of a search, on its first run.\<close>

definition page3_request :: request where
  "page3_request = \<lparr>userData = Search chef_page3_task, retryCount = 0\<rparr>"


section \<open>The aggregation API client: \<open>indeed_scraper_api.js\<close>\<close>

subsection \<open>\<open>extractEmailsFromText\<close>\<close>

text \<open>
  The character classes of
  \<open>/\b[A-Za-z0-9._%+-]+@[A-Za-z0-9.-]+\.[A-Z|a-z]{2,}\b/g\<close>.
\<close>

definition is_letter :: "char \<Rightarrow> bool" where
  "is_letter c = (c \<in> set (upper_letters @ lower_letters))"

text \<open>\<open>[A-Za-z0-9._%+-]\<close>\<close>

definition is_local :: "char \<Rightarrow> bool" where
  "is_local c = (is_letter c \<or> is_digit c \<or> c \<in> set ''._%+-'')"

text \<open>\<open>[A-Za-z0-9.-]\<close>\<close>

definition is_domain :: "char \<Rightarrow> bool" where
  "is_domain c = (is_letter c \<or> is_digit c \<or> c \<in> set ''.-'')"

text \<open>\<open>[A-Z|a-z]\<close>: the letters and the bar.\<close>

definition is_tld :: "char \<Rightarrow> bool" where
  "is_tld c = (is_letter c \<or> c = CHR ''|'')"

text \<open>A word character of \<open>\b\<close>: \<open>[A-Za-z0-9_]\<close>; outside the text there is none.\<close>

definition is_word :: "char option \<Rightarrow> bool" where
  "is_word c = (case c of None \<Rightarrow> False
                | Some x \<Rightarrow> is_letter x \<or> is_digit x \<or> x = CHR ''_'')"

definition word_boundary :: "char option \<Rightarrow> char option \<Rightarrow> bool" where
  "word_boundary prev next = (is_word prev \<noteq> is_word next)"

definition char_at :: "string \<Rightarrow> nat \<Rightarrow> char option" where
  "char_at s i = (if i < length s then Some (s ! i) else None)"

text \<open>
  The backtracking match at one position, quantifier by quantifier. Each greedy
  quantifier first takes the longest run of its class and gives characters back
  one at a time while the rest of the pattern fails.

  \<open>try_tld r t\<close>: \<open>r\<close> follows the dot; \<open>[A-Z|a-z]{2,}\<close> takes \<open>t\<close> characters and
  \<open>\b\<close> must hold behind them.
\<close>

fun try_tld :: "string \<Rightarrow> nat \<Rightarrow> string option" where
  "try_tld r 0 = None"
| "try_tld r (Suc t) =
     (if Suc t < 2 then None
      else if word_boundary (char_at r t) (char_at r (Suc t)) then Some (take (Suc t) r)
      else try_tld r t)"

text \<open>
  \<open>try_domain r d\<close>: \<open>r\<close> follows the \<open>@\<close>; \<open>[A-Za-z0-9.-]+\<close> takes \<open>d\<close>
  characters, then come the dot and the rest.
\<close>

fun try_domain :: "string \<Rightarrow> nat \<Rightarrow> string option" where
  "try_domain r 0 = None"
| "try_domain r (Suc d) =
     (case drop (Suc d) r of
        [] \<Rightarrow> try_domain r d
      | c # rest \<Rightarrow>
          if c = CHR ''.''
          then (case try_tld rest (length (takeWhile is_tld rest)) of
                  Some tld \<Rightarrow> Some (take (Suc d) r @ ''.'' @ tld)
                | None \<Rightarrow> try_domain r d)
          else try_domain r d)"

text \<open>
  \<open>try_local s l\<close>: \<open>s\<close> starts at the position; \<open>[A-Za-z0-9._%+-]+\<close> takes \<open>l\<close>
  characters, then come the \<open>@\<close> and the rest.
\<close>

fun try_local :: "string \<Rightarrow> nat \<Rightarrow> string option" where
  "try_local s 0 = None"
| "try_local s (Suc l) =
     (case drop (Suc l) s of
        [] \<Rightarrow> try_local s l
      | c # rest \<Rightarrow>
          if c = CHR ''@''
          then (case try_domain rest (length (takeWhile is_domain rest)) of
                  Some domain \<Rightarrow> Some (take (Suc l) s @ ''@'' @ domain)
                | None \<Rightarrow> try_local s l)
          else try_local s l)"

text \<open>
  The match that starts at the head of \<open>s\<close>, if there is one; \<open>prev\<close> is the
  character in front of it.
\<close>

definition match_at :: "char option \<Rightarrow> string \<Rightarrow> string option" where
  "match_at prev s =
     (if word_boundary prev (char_at s 0)
      then try_local s (length (takeWhile is_local s))
      else None)"

text \<open>
  \<open>text.match(emailRegex)\<close> with the \<open>g\<close> flag: the matches from left to right,
  each search starting where the last match ended.
\<close>

function match_all :: "char option \<Rightarrow> string \<Rightarrow> string list" where
  "match_all prev [] = []"
| "match_all prev (c # cs) =
     (case match_at prev (c # cs) of
        Some m \<Rightarrow> m # match_all (Some (last m)) (drop (length m) (c # cs))
      | None \<Rightarrow> match_all (Some c) cs)"
  by pat_completeness auto
termination
proof (relation "measure (\<lambda>(prev, s). length s)")
  show "wf (measure (\<lambda>(prev, s). length s))" by simp
next
  fix prev c cs m
  assume found: "match_at prev (c # cs) = Some m"
  have "try_local s l = Some m \<Longrightarrow> m \<noteq> []" for s l
    by (induction l) (auto split: list.splits if_splits option.splits)
  then have "m \<noteq> []"
    using found by (auto simp: match_at_def split: if_splits)
  then show "((Some (last m), drop (length m) (c # cs)), (prev, c # cs))
               \<in> measure (\<lambda>(prev, s). length s)"
    by (cases m) simp_all
next
  fix prev c cs
  show "((Some c, cs), (prev, c # cs)) \<in> measure (\<lambda>(prev, s). length s)" by simp
qed

declare match_all.simps [simp del]

text \<open>The filter on the matches.\<close>

definition is_contact_email :: "string \<Rightarrow> bool" where
  "is_contact_email email =
     (let lowerEmail = toLowerCase email
      in \<not> str_includes lowerEmail ''noreply''
       \<and> \<not> str_includes lowerEmail ''no-reply''
       \<and> \<not> str_includes lowerEmail ''donotreply''
       \<and> \<not> str_includes lowerEmail ''support''
       \<and> \<not> str_includes lowerEmail ''help'')"

text \<open>
  \<open>[...new Set(xs)]\<close>: the elements of \<open>xs\<close> in the order of their first
  occurrence. \<open>Set_add_all seen xs\<close> adds the elements of \<open>xs\<close> to a set that
  holds \<open>seen\<close> in insertion order.
\<close>

fun Set_add_all :: "'a list \<Rightarrow> 'a list \<Rightarrow> 'a list" where
  "Set_add_all seen [] = seen"
| "Set_add_all seen (x # xs) = Set_add_all (if x \<in> set seen then seen else seen @ [x]) xs"

text \<open>\<open>None\<close> is \<open>null\<close> or \<open>undefined\<close>.\<close>

definition extractEmailsFromText :: "string option \<Rightarrow> string list" where
  "extractEmailsFromText text =
     (case text of
        None \<Rightarrow> []
      | Some t \<Rightarrow>
          if t = [] then []
          else (let emails = match_all None t;
                    filteredEmails = filter is_contact_email emails
                in Set_add_all [] filteredEmails))"

definition description_text :: string where
  "description_text =
     ''CV to Chef.Anna@bluehill.com or jobs@bluehill.com, noreply@indeed.com, jobs@bluehill.com.''"

subsection \<open>The duplicate filter of \<open>scrapeJobsWithIndeedScraper\<close>\<close>

text \<open>
  A normalized job, as far as the duplicate filter reads it: \<open>title\<close> and
  \<open>company\<close> (\<open>None\<close> when missing), with the job id and the city of the search
  standing for the fields it does not read.
\<close>

record normalized_job =
  nj_title :: "string option"
  nj_company :: "string option"
  nj_job_id :: string
  nj_search_city :: string

text \<open>\<open>(field || 'unknown')\<close>: a missing field and the empty string are falsy.\<close>

definition or_unknown :: "string option \<Rightarrow> string" where
  "or_unknown field = (case field of None \<Rightarrow> ''unknown'' | Some s \<Rightarrow> if s = [] then ''unknown'' else s)"

definition jobKey :: "normalized_job \<Rightarrow> string" where
  "jobKey job =
     (let company = trim (toLowerCase (or_unknown (nj_company job)));
          title = trim (toLowerCase (or_unknown (nj_title job)))
      in company @ ''|'' @ title)"

record dedup =
  uniqueJobs :: "normalized_job list"
  seenJobs :: "string set"
  duplicateCount :: nat

text \<open>\<open>for (const job of allJobs)\<close>\<close>

fun dedup_loop :: "normalized_job list \<Rightarrow> dedup \<Rightarrow> dedup" where
  "dedup_loop [] d = d"
| "dedup_loop (job # jobs) d =
     dedup_loop jobs
       (if jobKey job \<notin> seenJobs d
        then d\<lparr>uniqueJobs := uniqueJobs d @ [job], seenJobs := insert (jobKey job) (seenJobs d)\<rparr>
        else d\<lparr>duplicateCount := duplicateCount d + 1\<rparr>)"

text \<open>
  What \<open>scrapeJobsWithIndeedScraper\<close> returns, given the jobs its searches have
  accumulated in its \<open>allJobs\<close>.
\<close>

definition scrapeJobsWithIndeedScraper_return :: "normalized_job list \<Rightarrow> normalized_job list" where
  "scrapeJobsWithIndeedScraper_return accumulated =
     uniqueJobs (dedup_loop accumulated \<lparr>uniqueJobs = [], seenJobs = {}, duplicateCount = 0\<rparr>)"

text \<open>
  Seven accumulated jobs. The third repeats the first under another city, in upper
  case and with a no-break space behind the company; the fifth repeats the fourth
  in lower case (\<open>CHR 0xC9\<close> and \<open>CHR 0xE9\<close> are the upper and lower case e with
  acute accent); the sixth has no company and an empty title, and the seventh is
  a job whose company is called \<open>Unknown\<close> and whose title is missing.
\<close>

definition hilton_chef :: normalized_job where
  "hilton_chef = \<lparr>nj_title = Some ''Executive Chef'', nj_company = Some ''Hilton'',
                  nj_job_id = ''a1'', nj_search_city = ''New York, NY''\<rparr>"

definition marriott_cook :: normalized_job where
  "marriott_cook = \<lparr>nj_title = Some ''Line Cook'', nj_company = Some ''Marriott'',
                    nj_job_id = ''b2'', nj_search_city = ''New York, NY''\<rparr>"

definition hilton_chef_again :: normalized_job where
  "hilton_chef_again =
     \<lparr>nj_title = Some ''EXECUTIVE CHEF'', nj_company = Some (''Hilton'' @ [CHR 0xA0]),
      nj_job_id = ''c3'', nj_search_city = ''Newark, NJ''\<rparr>"

definition cafe_barista :: normalized_job where
  "cafe_barista =
     \<lparr>nj_title = Some ''Barista'', nj_company = Some (''CAF'' @ [CHR 0xC9] @ '' ROYAL''),
      nj_job_id = ''d4'', nj_search_city = ''Boston, MA''\<rparr>"

definition cafe_barista_again :: normalized_job where
  "cafe_barista_again =
     \<lparr>nj_title = Some ''barista '', nj_company = Some (''caf'' @ [CHR 0xE9] @ '' royal''),
      nj_job_id = ''e5'', nj_search_city = ''Providence, RI''\<rparr>"

definition nameless_job :: normalized_job where
  "nameless_job = \<lparr>nj_title = Some [], nj_company = None,
                   nj_job_id = ''f6'', nj_search_city = ''Boston, MA''\<rparr>"

definition unknown_job :: normalized_job where
  "unknown_job = \<lparr>nj_title = None, nj_company = Some ''Unknown'',
                  nj_job_id = ''g7'', nj_search_city = ''Boston, MA''\<rparr>"

definition seven_jobs :: "normalized_job list" where
  "seven_jobs = [hilton_chef, marriott_cook, hilton_chef_again, cafe_barista,
                 cafe_barista_again, nameless_job, unknown_job]"


section \<open>Properties of task generation\<close>

lemma page_loop_eq:
  "0 \<le> page \<Longrightarrow>
   page_loop loc sal maxPages jt page tasks =
     tasks @ map (\<lambda>k. make_task loc sal jt (int k)) [nat page ..< nat maxPages]"
proof (induction loc sal maxPages jt page tasks rule: page_loop.induct)
  case (1 loc sal maxPages jt page tasks)
  show ?case
  proof (cases "page < maxPages")
    case True
    with "1.prems" have lt: "nat page < nat maxPages" by simp
    have "[nat page ..< nat maxPages] = nat page # [Suc (nat page) ..< nat maxPages]"
      using lt by (rule upt_conv_Cons)
    moreover have "Suc (nat page) = nat (page + 1)"
      using "1.prems" by simp
    ultimately have step:
      "[nat page ..< nat maxPages] = nat page # [nat (page + 1) ..< nat maxPages]"
      by simp
    have "page_loop loc sal maxPages jt page tasks =
          page_loop loc sal maxPages jt (page + 1) (tasks @ [make_task loc sal jt page])"
      using True by (subst page_loop.simps) simp
    also have "\<dots> = (tasks @ [make_task loc sal jt page]) @
          map (\<lambda>k. make_task loc sal jt (int k)) [nat (page + 1) ..< nat maxPages]"
      using "1.IH" [OF True] "1.prems" by simp
    finally show ?thesis using step "1.prems" by simp
  next
    case False
    then have "nat maxPages \<le> nat page" by simp
    then show ?thesis using False by (subst page_loop.simps) simp
  qed
qed

lemma jobTypes_forEach_eq:
  "jobTypes_forEach loc sal maxPages jts tasks =
     tasks @ concat (map (\<lambda>jt. map (\<lambda>k. make_task loc sal jt (int k)) [0 ..< nat maxPages]) jts)"
proof (induction jts arbitrary: tasks)
  case Nil
  show ?case by simp
next
  case (Cons jt jts)
  have "page_loop loc sal maxPages jt 0 tasks =
        tasks @ map (\<lambda>k. make_task loc sal jt (int k)) [0 ..< nat maxPages]"
    using page_loop_eq [of 0 loc sal maxPages jt tasks] by simp
  then show ?case using Cons.IH by simp
qed

lemma concat_map_nth:
  "(\<And>x. length (f x) = m) \<Longrightarrow> i < length xs \<Longrightarrow> k < m \<Longrightarrow>
   concat (map f xs) ! (i * m + k) = f (xs ! i) ! k"
proof (induction xs arbitrary: i)
  case Nil
  then show ?case by simp
next
  case (Cons x xs)
  show ?case
  proof (cases i)
    case 0
    then show ?thesis using Cons.prems by (simp add: nth_append)
  next
    case (Suc j)
    have "concat (map f (x # xs)) ! (i * m + k) = (f x @ concat (map f xs)) ! (m + (j * m + k))"
      using Suc by (simp add: add.assoc)
    also have "\<dots> = concat (map f xs) ! (j * m + k)"
      using Cons.prems(1) [of x] by (simp add: nth_append)
    also have "\<dots> = f (xs ! j) ! k"
      using Cons.IH [of j] Cons.prems Suc by simp
    finally show ?thesis using Suc by simp
  qed
qed

lemma length_concat_const:
  "(\<And>x. length (f x) = m) \<Longrightarrow> length (concat (map f xs)) = length xs * m"
  by (induction xs) simp_all

text \<open>
  Claim C6. For every list of search terms and every page count \<open>n \<ge> 0\<close>,
  \<open>createIndeedSearchTasks\<close> returns exactly \<open>length searchTerms * n\<close> tasks,
  in term-major, page-minor order: the task at position \<open>i * n + k\<close> carries the
  \<open>i\<close>-th search term and page number \<open>k\<close>. Every generated task has
  \<open>isFirstPage\<close> true exactly when its \<open>pageNumber\<close> is \<open>0\<close>.
\<close>

theorem createIndeedSearchTasks_term_major:
  assumes n: "p_maxPages params = Some n" "0 \<le> n"
    and ts: "p_jobTypes params = Some searchTerms"
  shows "length (createIndeedSearchTasks params) = length searchTerms * nat n
       \<and> (\<forall>i < length searchTerms. \<forall>k < nat n.
             jobType (createIndeedSearchTasks params ! (i * nat n + k)) = searchTerms ! i
           \<and> pageNumber (createIndeedSearchTasks params ! (i * nat n + k)) = int k)
       \<and> (\<forall>t \<in> set (createIndeedSearchTasks params). isFirstPage t = (pageNumber t = 0))"
proof -
  define loc where "loc = (case p_location params of None \<Rightarrow> ''United States'' | Some l \<Rightarrow> l)"
  define sal where "sal = (case p_salaryMin params of None \<Rightarrow> 55000 | Some s \<Rightarrow> s)"
  define row where "row = (\<lambda>jt. map (\<lambda>k. make_task loc sal jt (int k)) [0 ..< nat n])"
  have eq: "createIndeedSearchTasks params = concat (map row searchTerms)"
    unfolding createIndeedSearchTasks_def row_def loc_def sal_def
    by (simp add: n ts jobTypes_forEach_eq)
  have len: "\<And>jt. length (row jt) = nat n" by (simp add: row_def)
  have A: "length (createIndeedSearchTasks params) = length searchTerms * nat n"
    unfolding eq using len by (rule length_concat_const)
  have B: "jobType (createIndeedSearchTasks params ! (i * nat n + k)) = searchTerms ! i
         \<and> pageNumber (createIndeedSearchTasks params ! (i * nat n + k)) = int k"
    if "i < length searchTerms" "k < nat n" for i k
  proof -
    have "createIndeedSearchTasks params ! (i * nat n + k) = row (searchTerms ! i) ! k"
      unfolding eq using len that by (rule concat_map_nth)
    also have "\<dots> = make_task loc sal (searchTerms ! i) (int k)"
      using that by (simp add: row_def)
    finally show ?thesis by (simp add: make_task_def)
  qed
  have C: "isFirstPage t = (pageNumber t = 0)" if "t \<in> set (createIndeedSearchTasks params)" for t
    using that unfolding eq row_def by (auto simp: make_task_def)
  show ?thesis using A B C by blast
qed

text \<open>
  The theorem at two search terms and three pages: six tasks, the fifth of which
  (position \<open>1 * 3 + 1\<close>) is page 1 of the second term.
\<close>

theorem createIndeedSearchTasks_term_major_witness:
  "length (createIndeedSearchTasks demo_params) = 6
   \<and> jobType (createIndeedSearchTasks demo_params ! 4) = ''sous chef''
   \<and> pageNumber (createIndeedSearchTasks demo_params ! 4) = 1"
proof -
  have n: "p_maxPages demo_params = Some 3" "(0::int) \<le> 3"
    and ts: "p_jobTypes demo_params = Some [''executive chef'', ''sous chef'']"
    by (simp_all add: demo_params_def)
  from createIndeedSearchTasks_term_major [OF n ts]
  have len: "length (createIndeedSearchTasks demo_params) = 6"
    and nth: "\<forall>i<2. \<forall>k<3. jobType (createIndeedSearchTasks demo_params ! (i * 3 + k)) = [''executive chef'', ''sous chef''] ! i
             \<and> pageNumber (createIndeedSearchTasks demo_params ! (i * 3 + k)) = int k"
    by simp_all
  from nth have "jobType (createIndeedSearchTasks demo_params ! (1 * 3 + 1)) = [''executive chef'', ''sous chef''] ! 1
             \<and> pageNumber (createIndeedSearchTasks demo_params ! (1 * 3 + 1)) = int 1"
    by (metis one_less_numeral_iff semiring_norm(76) semiring_norm(77))
  then show ?thesis using len by simp
qed


section \<open>Properties of the challenge handler\<close>

subsection \<open>The polling loop\<close>

lemma poll_loop_timeout:
  "\<not> attempts < maxAttempts \<Longrightarrow>
   poll_loop page lastUrl attempts now =
     \<lparr>ret = False, exit_at = TimedOut, rounds = attempts, elapsed = now\<rparr>"
  by (subst poll_loop.simps) simp

lemma poll_loop_rounds_ge:
  "attempts \<le> rounds (poll_loop page lastUrl attempts now)"
proof (induction "maxAttempts - attempts" arbitrary: attempts lastUrl now)
  case 0
  then have "\<not> attempts < maxAttempts" by simp
  then show ?case by (simp add: poll_loop_timeout)
next
  case (Suc k)
  then have lt: "attempts < maxAttempts" and k: "k = maxAttempts - (attempts + 1)" by simp_all
  have IH: "attempts + 1 \<le> rounds (poll_loop page u (attempts + 1) t)" for u t
    using Suc.hyps(1) [OF k] .
  show ?case
    using lt IH [of lastUrl] IH
    by (subst poll_loop.simps)
       (auto split: sum.splits round_step.splits dest: Suc_leD simp: le_Suc_eq)
qed

lemma poll_loop_rounds_pos:
  assumes "attempts < maxAttempts"
  shows "attempts < rounds (poll_loop page lastUrl attempts now)"
proof -
  have IH: "attempts + 1 \<le> rounds (poll_loop page u (attempts + 1) t)" for u t
    by (rule poll_loop_rounds_ge)
  have IH': "attempts < rounds (poll_loop page u (Suc attempts) t)" for u t
    using IH [of u t] by simp
  show ?thesis
    using assms IH'
    by (subst poll_loop.simps) (auto split: sum.splits round_step.splits)
qed

lemma poll_loop_rounds_le:
  "attempts \<le> maxAttempts \<Longrightarrow> rounds (poll_loop page lastUrl attempts now) \<le> maxAttempts"
proof (induction "maxAttempts - attempts" arbitrary: attempts lastUrl now)
  case 0
  then have "\<not> attempts < maxAttempts" by simp
  then show ?case using "0.prems" by (simp add: poll_loop_timeout)
next
  case (Suc k)
  then have lt: "attempts < maxAttempts" and k: "k = maxAttempts - (attempts + 1)" by simp_all
  have IH: "rounds (poll_loop page u (Suc attempts) t) \<le> maxAttempts" for u t
    using Suc.hyps(1) [OF k] lt by simp
  show ?case
    using lt IH
    by (subst poll_loop.simps) (auto split: sum.splits round_step.splits)
qed


lemma sel_stabilized_imp: "sel_stabilized s \<Longrightarrow> sel_results_or_searchform s"
  by (auto simp: sel_stabilized_def sel_results_or_searchform_def)

lemma query_or_null_False: "\<not> selector s \<Longrightarrow> \<not> query_or_null s selector"
  by (simp add: query_or_null_def split: option.splits)

text \<open>One round on a page that stays a challenge page: the round never returns.\<close>

lemma poll_try_stuck:
  assumes "s_url s = Inr u"
    and "\<not> sel_results_or_searchform s"
    and "\<And>T. s_title s = Inr T \<Longrightarrow> has_indicator T"
  shows "(\<exists>e. poll_try s u = Inl e) \<or> poll_try s u = Inr CaptchaWait
         \<or> poll_try s u = Inr (StillActive u)"
proof (cases "s_title s")
  case (Inl e)
  then show ?thesis using assms(1) by (simp add: poll_try_def)
next
  case (Inr T)
  then have "has_indicator T" by (rule assms(3))
  then show ?thesis
    using Inr assms(1) query_or_null_False [of sel_results_or_searchform s, OF assms(2)]
    by (simp add: poll_try_def)
qed

lemma recheck_stuck:
  assumes "\<not> sel_results_or_searchform s"
    and "\<And>T. s_title s = Inr T \<Longrightarrow> has_indicator T"
  shows "\<not> recheck_after_detach s"
proof (cases "s_title s")
  case (Inl e)
  then show ?thesis by (simp add: recheck_after_detach_def)
next
  case (Inr T)
  have "\<not> sel_stabilized s" using assms(1) sel_stabilized_imp by blast
  then have "\<not> query_or_null s sel_stabilized" by (rule query_or_null_False)
  then show ?thesis using Inr assms(2) [OF Inr] by (simp add: recheck_after_detach_def)
qed

lemma poll_loop_stuck:
  assumes url: "\<And>t. s_url (page t) = Inr u"
    and marker: "\<And>t. \<not> sel_results_or_searchform (page t)"
    and title: "\<And>t T. s_title (page t) = Inr T \<Longrightarrow> has_indicator T"
  shows "attempts \<le> maxAttempts \<Longrightarrow>
         ret (poll_loop page u attempts now) = False
       \<and> exit_at (poll_loop page u attempts now) = TimedOut
       \<and> rounds (poll_loop page u attempts now) = maxAttempts"
proof (induction "maxAttempts - attempts" arbitrary: attempts now)
  case 0
  then have "\<not> attempts < maxAttempts" and "attempts = maxAttempts" by simp_all
  then show ?case by (simp add: poll_loop_timeout)
next
  case (Suc k)
  then have lt: "attempts < maxAttempts" and k: "k = maxAttempts - (attempts + 1)" by simp_all
  have IH: "ret (poll_loop page u (attempts + 1) t) = False
          \<and> exit_at (poll_loop page u (attempts + 1) t) = TimedOut
          \<and> rounds (poll_loop page u (attempts + 1) t) = maxAttempts" for t
    using Suc.hyps(1) [OF k] lt by simp
  have no_recheck: "\<not> recheck_after_detach (page (now + 5000 + 3000))"
    using marker title by (rule recheck_stuck)
  have "(\<exists>e. poll_try (page (now + 5000)) u = Inl e)
        \<or> poll_try (page (now + 5000)) u = Inr CaptchaWait
        \<or> poll_try (page (now + 5000)) u = Inr (StillActive u)"
    using url marker title by (rule poll_try_stuck)
  then consider (thrown) e where "poll_try (page (now + 5000)) u = Inl e"
    | (captcha) "poll_try (page (now + 5000)) u = Inr CaptchaWait"
    | (active) "poll_try (page (now + 5000)) u = Inr (StillActive u)"
    by blast
  then show ?case
  proof cases
    case thrown
    then show ?thesis
      using lt IH no_recheck by (subst (1 2 3) poll_loop.simps) simp
  next
    case captcha
    then show ?thesis
      using lt IH by (subst (1 2 3) poll_loop.simps) simp
  next
    case active
    then show ?thesis
      using lt IH by (subst (1 2 3) poll_loop.simps) simp
  qed
qed


lemma poll_loop_elapsed_ge:
  "now \<le> elapsed (poll_loop page lastUrl attempts now)"
proof (induction "maxAttempts - attempts" arbitrary: attempts lastUrl now)
  case 0
  then have "\<not> attempts < maxAttempts" by simp
  then show ?case by (simp add: poll_loop_timeout)
next
  case (Suc k)
  then have lt: "attempts < maxAttempts" and k: "k = maxAttempts - (attempts + 1)" by simp_all
  have IH: "t \<le> elapsed (poll_loop page u (attempts + 1) t)" for u t
    using Suc.hyps(1) [OF k] .
  have IH': "now \<le> elapsed (poll_loop page u (Suc attempts) t)" if "now \<le> t" for u t
    using IH [of t u] that by simp
  show ?case
    using lt
    by (subst poll_loop.simps) (auto split: sum.splits round_step.splits intro!: IH')
qed

lemma poll_loop_first_wait:
  assumes "attempts < maxAttempts"
  shows "now + 5000 \<le> elapsed (poll_loop page lastUrl attempts now)"
proof -
  have IH: "now + 5000 \<le> elapsed (poll_loop page u (Suc attempts) t)" if "now + 5000 \<le> t" for u t
    using poll_loop_elapsed_ge [of t page u "Suc attempts"] that by simp
  show ?thesis
    using assms
    by (subst poll_loop.simps) (auto split: sum.splits round_step.splits intro!: IH)
qed

text \<open>A round that finds the results marker returns \<open>true\<close>.\<close>

lemma poll_try_marker:
  assumes "s_url s = Inr u'" and "s_title s = Inr T'"
    and "query_or_null s sel_results"
  shows "\<exists>exit. poll_try s lastUrl = Inr (Return exit)"
proof -
  have "query_or_null s sel_results_or_searchform"
    using assms(3)
    by (auto simp: query_or_null_def sel_results_def sel_results_or_searchform_def
             split: option.splits)
  then show ?thesis using assms(1,2) by (simp add: poll_try_def)
qed

lemma poll_loop_first_round_returns:
  assumes "poll_try (page 5000) lastUrl = Inr (Return exit)"
  shows "poll_loop page lastUrl 0 0 = \<lparr>ret = True, exit_at = exit, rounds = 1, elapsed = 7000\<rparr>"
  using assms by (subst poll_loop.simps) (simp add: maxAttempts_def)

text \<open>
  A round whose reads throw a "detached" or "destroyed" error, and whose re-check
  after 3 seconds does not find a valid page, is folded into the next round; a round
  that throws any other error goes on to the next round at once.
\<close>

lemma thrown_round_is_folded:
  assumes "attempts < maxAttempts"
    and "poll_try (page (now + 5000)) lastUrl = Inl message"
  shows "poll_loop page lastUrl attempts now =
     (if str_includes message ''detached'' \<or> str_includes message ''destroyed''
      then (if recheck_after_detach (page (now + 5000 + 3000))
            then \<lparr>ret = True, exit_at = Stabilized, rounds = attempts + 1,
                  elapsed = now + 5000 + 3000\<rparr>
            else poll_loop page lastUrl (attempts + 1) (now + 5000 + 3000))
      else poll_loop page lastUrl (attempts + 1) (now + 5000))"
  using assms by (subst poll_loop.simps) simp

subsection \<open>Claims about the challenge handler\<close>

text \<open>
  Claim C2, as the code has it. The claim reads: on a view with a results marker the
  handler answers success at once, whatever the title and the body text say, with no
  polling round. The code looks for the marker before polling only when neither the
  title nor the body text holds an indicator phrase
  (\<open>if (!isCloudflareChallenge && !hasCloudflareContent)\<close>). So, for every page
  whose address can be read and on which a results marker is present at the start:
  \<^item> if neither the title nor the body text holds an indicator phrase, the handler
    returns \<open>true\<close> at once: no polling round, no wait;
  \<^item> if one of them does, the handler enters the polling loop: at least one round is
    started and at least 5 seconds pass before it answers;
  \<^item> in that case, if after the first 5 second wait the address and the title can be
    read and the marker is still there, the handler returns \<open>true\<close> in that first
    round, 7 seconds after the call.
\<close>

theorem handleCloudflareChallenge_results_marker:
  assumes url: "s_url (page 0) = Inr u"
    and marker: "query_or_null (page 0) sel_results"
  shows "(\<not> has_indicator (title_or_empty (page 0)) \<and> \<not> has_indicator (bodyText_or_empty (page 0))
            \<longrightarrow> handleCloudflareChallenge page =
                 Inr \<lparr>ret = True, exit_at = AlreadyOnResults, rounds = 0, elapsed = 0\<rparr>)
       \<and> (has_indicator (title_or_empty (page 0)) \<or> has_indicator (bodyText_or_empty (page 0))
            \<longrightarrow> (\<exists>r. handleCloudflareChallenge page = Inr r \<and> 1 \<le> rounds r \<and> 5000 \<le> elapsed r))
       \<and> ((has_indicator (title_or_empty (page 0)) \<or> has_indicator (bodyText_or_empty (page 0)))
            \<and> (\<exists>u'. s_url (page 5000) = Inr u') \<and> (\<exists>T'. s_title (page 5000) = Inr T')
            \<and> query_or_null (page 5000) sel_results
            \<longrightarrow> (\<exists>r. handleCloudflareChallenge page = Inr r \<and> ret r \<and> rounds r = 1
                     \<and> elapsed r = 7000))"
proof (intro conjI impI)
  assume "\<not> has_indicator (title_or_empty (page 0)) \<and> \<not> has_indicator (bodyText_or_empty (page 0))"
  then show "handleCloudflareChallenge page =
      Inr \<lparr>ret = True, exit_at = AlreadyOnResults, rounds = 0, elapsed = 0\<rparr>"
    using url marker
    by (simp add: handleCloudflareChallenge_def handleCloudflareChallenge_try_def)
next
  assume ind: "has_indicator (title_or_empty (page 0)) \<or> has_indicator (bodyText_or_empty (page 0))"
  then have eq: "handleCloudflareChallenge page = Inr (poll_loop page u 0 0)"
    using url by (auto simp: handleCloudflareChallenge_def handleCloudflareChallenge_try_def Let_def)
  have "0 < rounds (poll_loop page u 0 0)"
    by (rule poll_loop_rounds_pos) (simp add: maxAttempts_def)
  moreover have "0 + 5000 \<le> elapsed (poll_loop page u 0 0)"
    by (rule poll_loop_first_wait) (simp add: maxAttempts_def)
  ultimately show "\<exists>r. handleCloudflareChallenge page = Inr r \<and> 1 \<le> rounds r \<and> 5000 \<le> elapsed r"
    using eq by simp
next
  assume a: "(has_indicator (title_or_empty (page 0)) \<or> has_indicator (bodyText_or_empty (page 0)))
      \<and> (\<exists>u'. s_url (page 5000) = Inr u') \<and> (\<exists>T'. s_title (page 5000) = Inr T')
      \<and> query_or_null (page 5000) sel_results"
  then have eq: "handleCloudflareChallenge page = Inr (poll_loop page u 0 0)"
    using url by (auto simp: handleCloudflareChallenge_def handleCloudflareChallenge_try_def Let_def)
  from a obtain u' T' where "s_url (page 5000) = Inr u'" "s_title (page 5000) = Inr T'"
    and "query_or_null (page 5000) sel_results" by blast
  then obtain exit where "poll_try (page 5000) u = Inr (Return exit)"
    using poll_try_marker by blast
  then have "poll_loop page u 0 0 = \<lparr>ret = True, exit_at = exit, rounds = 1, elapsed = 7000\<rparr>"
    by (rule poll_loop_first_round_returns)
  then show "\<exists>r. handleCloudflareChallenge page = Inr r \<and> ret r \<and> rounds r = 1 \<and> elapsed r = 7000"
    using eq by simp
qed

text \<open>
  The theorem at two pages: a clean results page (first part) and a results page
  under a stale challenge title (second and third part).
\<close>

lemma results_page_facts:
  "s_url (results_page 0) = Inr indeed_url"
  "query_or_null (results_page 0) sel_results"
  "\<not> has_indicator (title_or_empty (results_page 0))"
  "\<not> has_indicator (bodyText_or_empty (results_page 0))"
  by code_simp+

lemma stale_banner_page_facts:
  "s_url (stale_banner_page t) = Inr indeed_url"
  "s_title (stale_banner_page t) = Inr ''Just a moment...''"
  "query_or_null (stale_banner_page t) sel_results"
  "has_indicator (title_or_empty (stale_banner_page 0))"
  by (simp_all add: stale_banner_page_def stuck_snapshot_def query_or_null_def sel_results_def
        title_or_empty_def has_indicator_def cloudflareIndicators_def toLowerCase_def
        toLowerCase_char_def upper_letters_def lower_letters_def
        latin1_upper_def latin1_lower_def)

theorem handleCloudflareChallenge_results_marker_witness:
  "handleCloudflareChallenge results_page =
     Inr \<lparr>ret = True, exit_at = AlreadyOnResults, rounds = 0, elapsed = 0\<rparr>
   \<and> (\<exists>r. handleCloudflareChallenge stale_banner_page = Inr r \<and> ret r \<and> rounds r = 1
          \<and> elapsed r = 7000)"
proof
  show "handleCloudflareChallenge results_page =
     Inr \<lparr>ret = True, exit_at = AlreadyOnResults, rounds = 0, elapsed = 0\<rparr>"
    using handleCloudflareChallenge_results_marker [of results_page indeed_url]
      results_page_facts by blast
next
  show "\<exists>r. handleCloudflareChallenge stale_banner_page = Inr r \<and> ret r \<and> rounds r = 1
          \<and> elapsed r = 7000"
    using handleCloudflareChallenge_results_marker [of stale_banner_page indeed_url]
      stale_banner_page_facts by blast
qed

text \<open>
  Claim C2 as stated fails on a results page whose title is still
  \<open>Just a moment...\<close>: the marker is present from the start, and the handler
  answers only in the first polling round, after 7 seconds.
\<close>

theorem stale_banner_costs_a_round:
  "query_or_null (stale_banner_page 0) sel_results
   \<and> handleCloudflareChallenge stale_banner_page =
       Inr \<lparr>ret = True, exit_at = ResultsDetected, rounds = 1, elapsed = 7000\<rparr>"
  by code_simp

text \<open>
  Claim C3. Take a page whose title holds an indicator phrase, which never shows a
  results marker (none of \<open>[data-jk]\<close>, \<open>.job_seen_beacon\<close>,
  \<open>.jobsearch-SerpJobCard\<close>, \<open>#searchform\<close>), whose address never changes and
  whose title, whenever it can be read, still holds an indicator phrase. The handler
  does not report "no challenge": its answer is that of the polling loop, which is
  \<open>false\<close> from the time-out exit after exactly 12 rounds.
\<close>

theorem handleCloudflareChallenge_times_out:
  assumes title0: "s_title (page 0) = Inr T0" "has_indicator T0"
    and url: "\<forall>t. s_url (page t) = Inr u"
    and marker: "\<forall>t. \<not> sel_results_or_searchform (page t)"
    and title: "\<forall>t T. s_title (page t) = Inr T \<longrightarrow> has_indicator T"
  shows "handleCloudflareChallenge page = Inr (poll_loop page u 0 0)
       \<and> ret (poll_loop page u 0 0) = False
       \<and> exit_at (poll_loop page u 0 0) = TimedOut
       \<and> rounds (poll_loop page u 0 0) = 12"
proof -
  have "\<not> sel_results (page 0)"
    using marker by (auto simp: sel_results_def sel_results_or_searchform_def)
  then have "\<not> query_or_null (page 0) sel_results" by (rule query_or_null_False)
  then have "handleCloudflareChallenge page = Inr (poll_loop page u 0 0)"
    using title0 url
    by (simp add: handleCloudflareChallenge_def handleCloudflareChallenge_try_def title_or_empty_def)
  moreover have "ret (poll_loop page u 0 0) = False
       \<and> exit_at (poll_loop page u 0 0) = TimedOut
       \<and> rounds (poll_loop page u 0 0) = maxAttempts"
    using url marker title by (intro poll_loop_stuck) auto
  ultimately show ?thesis by (simp add: maxAttempts_def)
qed

text \<open>The theorem at the page that shows \<open>Checking your browser...\<close> for ever.\<close>

lemma stuck_page_facts:
  "s_title (stuck_page t) = Inr ''Checking your browser...''"
  "has_indicator ''Checking your browser...''"
  "s_url (stuck_page t) = Inr indeed_url"
  "\<not> sel_results_or_searchform (stuck_page t)"
  by (simp_all add: stuck_page_def stuck_snapshot_def sel_results_or_searchform_def
        has_indicator_def cloudflareIndicators_def toLowerCase_def
        toLowerCase_char_def upper_letters_def lower_letters_def
        latin1_upper_def latin1_lower_def)

theorem handleCloudflareChallenge_times_out_witness:
  "\<exists>r. handleCloudflareChallenge stuck_page = Inr r \<and> ret r = False \<and> exit_at r = TimedOut
       \<and> rounds r = 12"
proof -
  have "\<forall>t T. s_title (stuck_page t) = Inr T \<longrightarrow> has_indicator T"
    using stuck_page_facts(1,2) by simp
  with handleCloudflareChallenge_times_out [of stuck_page "''Checking your browser...''" indeed_url]
    stuck_page_facts
  show ?thesis by simp
qed

text \<open>
  Claim C8, as the code has it. The claim reads: the handler never throws for a
  detection-related condition; only a fatal transport failure propagates to the
  caller. In the code nothing propagates: the reads before the loop carry their own
  \<open>.catch\<close>, every polling round runs inside \<open>try\<close>/\<open>catch\<close>, and the outer
  \<open>catch\<close> answers \<open>false\<close> for whatever is left. For every page, whatever its
  calls throw and whenever, the handler returns an answer, after at most 12 rounds.
\<close>

theorem handleCloudflareChallenge_never_throws:
  "\<exists>r. handleCloudflareChallenge page = Inr r \<and> rounds r \<le> 12"
proof (cases "handleCloudflareChallenge_try page")
  case (Inl e)
  then show ?thesis by (simp add: handleCloudflareChallenge_def)
next
  case (Inr r)
  have "rounds (poll_loop page u 0 0) \<le> maxAttempts" for u
    by (rule poll_loop_rounds_le) simp
  then have "rounds r \<le> 12"
    using Inr
    by (auto simp: handleCloudflareChallenge_try_def Let_def maxAttempts_def
             split: sum.splits if_splits)
  then show ?thesis using Inr by (simp add: handleCloudflareChallenge_def)
qed

text \<open>
  Claim C8 as stated lets a fatal transport failure reach the caller. On a page whose
  connection is lost (the title and the body cannot be read, every query rejects)
  the handler does not throw: it answers \<open>true\<close>, from the "no challenge" exit. On
  a page object on which \<open>page.url()\<close> throws as well, the outer \<open>catch\<close> answers
  \<open>false\<close>.
\<close>

theorem lost_connection_is_absorbed:
  "handleCloudflareChallenge dead_page =
     Inr \<lparr>ret = True, exit_at = NoChallenge, rounds = 0, elapsed = 0\<rparr>
   \<and> handleCloudflareChallenge closed_page =
     Inr \<lparr>ret = False, exit_at = HandlerError, rounds = 0, elapsed = 0\<rparr>"
  by code_simp

text \<open>
  The theorem at a challenge page whose connection is lost while the handler polls.
\<close>

theorem handleCloudflareChallenge_never_throws_witness:
  "\<exists>r. handleCloudflareChallenge dying_page = Inr r \<and> rounds r \<le> 12"
  using handleCloudflareChallenge_never_throws [of dying_page] .


section \<open>Properties of extraction\<close>

lemma and_then_Inr: "and_then r f = Inr y \<longleftrightarrow> (\<exists>v. r = Inr v \<and> f v = Inr y)"
  by (cases r) (simp_all add: and_then_def)

lemma first_text_none:
  "\<forall>selector \<in> set selectors. \<forall>t. getText element selector = Inr t \<longrightarrow> t = [] \<Longrightarrow>
   first_text element selectors = Inr t \<Longrightarrow> t = []"
  by (induction selectors) (auto simp: and_then_def split: sum.splits if_splits)

text \<open>
  The in-page function starts its search for the job id with
  \<open>getAttr('', 'data-jk')\<close>, that is \<open>element.querySelector('')\<close>, which throws.
  So the evaluation in the page throws on every card, after the title, the company
  and the other texts have been read: \<open>extractIndeedJobData\<close> returns \<open>null\<close>,
  and the extraction loop pushes nothing, whatever the card and the filters.
\<close>

lemma getAttr_empty_selector: "\<exists>e. getAttr element [] attr = Inl e"
  by (simp add: getAttr_def querySelector_def and_then_def)

lemma extract_in_page_throws: "\<exists>e. extract_in_page scrapedAt element = Inl e"
proof -
  obtain e where e: "getAttr element [] ''data-jk'' = Inl e"
    using getAttr_empty_selector by blast
  have "False" if "extract_in_page scrapedAt element = Inr jobData" for jobData
    using that unfolding extract_in_page_def or_else_def and_then_Inr
    by (simp add: e)
  then show ?thesis
    by (cases "extract_in_page scrapedAt element") auto
qed

lemma extractIndeedJobData_null: "extractIndeedJobData scrapedAt element = None"
  using extract_in_page_throws [of scrapedAt element]
  by (auto simp: extractIndeedJobData_def)

lemma extract_card_emits_nothing: "extract_card excl sal scrapedAt element = []"
  by (simp add: extract_card_def extractIndeedJobData_null)

lemma extract_loop_emits_nothing:
  "extract_loop excl sal scrapedAt elements pageJobs = pageJobs"
  by (induction elements arbitrary: pageJobs) (simp_all add: extract_card_emits_nothing)

text \<open>
  A company text that consists of white space only, a no-break space here, is
  trimmed to the empty string: the company does not resolve.
\<close>

lemma blank_company_does_not_resolve:
  "first_text (card_of blank_company_texts) companySelectors = Inr []"
  by code_simp

text \<open>
  Claim C4 on the code. The claim reads: a card on which no company selector yields
  text emits no record, and a card on which title and company resolve and no
  salary selector matches emits a record whose salary is the empty string. The
  in-page function does build that record (\<open>salary: salary || ''\<close>), but only
  behind its call of \<open>element.querySelector('')\<close>. On a card whose title resolves
  to \<open>Executive Chef\<close> and whose company resolves to \<open>Blue Hill\<close>, with no salary
  element, \<open>extractIndeedJobData\<close> returns \<open>null\<close> and the loop emits no record,
  whatever the two filters are.
\<close>

theorem resolved_card_emits_nothing:
  "first_text (card_of chef_texts) titleSelectors = Inr ''Executive Chef''
   \<and> first_text (card_of chef_texts) companySelectors = Inr ''Blue Hill''
   \<and> first_text (card_of chef_texts) salarySelectors = Inr []
   \<and> extractIndeedJobData scrapedAt (card_of chef_texts) = None
   \<and> extract_card excl sal scrapedAt (card_of chef_texts) = []"
proof -
  have "first_text (card_of chef_texts) titleSelectors = Inr ''Executive Chef''"
    "first_text (card_of chef_texts) companySelectors = Inr ''Blue Hill''"
    "first_text (card_of chef_texts) salarySelectors = Inr []"
    by code_simp+
  then show ?thesis
    by (simp add: extractIndeedJobData_null extract_card_emits_nothing)
qed


section \<open>Properties of the request handler\<close>

lemma requestHandler_never_rejects:
  "rejected (requestHandler excl sal req env st) = None"
  by (simp add: requestHandler_def Let_def split: user_data.splits sum.splits)

lemma crawl_request_single_run:
  "crawl_request excl sal task envs k st acts =
     (let h = requestHandler excl sal \<lparr>userData = task, retryCount = k\<rparr> (envs k) st in
      \<lparr>runs = k + 1, last_exit = exit_h h, gave_up = False, result = final h,
       all_performed = acts @ performed h\<rparr>)"
  by (subst crawl_request.simps) (simp add: Let_def requestHandler_never_rejects)

text \<open>
  Claim C5. Take a search task that is not a first page, on a run whose set-up calls
  do not throw and whose read of the results count succeeds. If the declared total
  (\<open>totalResults\<close>: the first run of digits of the count element, \<open>0\<close> without
  one) is below \<open>(pageNumber + 1) * 10\<close>, the handler returns from the "no page
  needed" exit: it does nothing to the page (no click on a next button), counts no
  failure, adds no job, and does not reject.
\<close>

theorem pagination_guard:
  assumes task: "userData req = Search task" "\<not> isFirstPage task"
    and stealth: "stealth_error env = None"
    and count: "count_indicator env = Inr countElement"
    and few: "int (totalResults_of countElement) < (pageNumber task + 1) * 10"
  shows "exit_h (requestHandler excl sal req env st) = NotEnoughResults
       \<and> performed (requestHandler excl sal req env st) = []
       \<and> rejected (requestHandler excl sal req env st) = None
       \<and> failedUrls (final (requestHandler excl sal req env st)) = failedUrls st
       \<and> allJobs (final (requestHandler excl sal req env st)) = allJobs st"
proof -
  have "paginate excl sal req task env st' =
          \<lparr>ended = Inr NotEnoughResults, state = st', actions = []\<rparr>" for st'
    using count few by (simp add: paginate_def)
  then have "requestHandler_try excl sal req task env st' =
          \<lparr>ended = Inr NotEnoughResults, state = st', actions = []\<rparr>" for st'
    using task(2) stealth by (simp add: requestHandler_try_def)
  then show ?thesis
    using task(1) by (simp add: requestHandler_def)
qed

text \<open>The theorem at a declared total of 15 and page number 2 (30 expected).\<close>

lemma page3_facts:
  "userData page3_request = Search chef_page3_task"
  "\<not> isFirstPage chef_page3_task"
  "pageNumber chef_page3_task = 2"
  "stealth_error good_run = None"
  "count_indicator good_run = Inr (Some ''15 jobs'')"
  "totalResults_of (Some ''15 jobs'') = 15"
  by code_simp+

theorem pagination_guard_witness:
  "totalResults_of (Some ''15 jobs'') = 15 \<and> pageNumber chef_page3_task = 2
   \<and> exit_h (requestHandler excludes_aramark no_salary_name page3_request good_run empty_state)
       = NotEnoughResults
   \<and> performed (requestHandler excludes_aramark no_salary_name page3_request good_run empty_state)
       = []"
proof -
  have "int (totalResults_of (Some ''15 jobs'')) < (pageNumber chef_page3_task + 1) * 10"
    by (simp add: page3_facts)
  from pagination_guard [OF page3_facts(1,2,4,5) this]
  show ?thesis using page3_facts(3,6) by simp
qed

subsection \<open>A failed challenge\<close>

lemma stuck_page_unresolved:
  "\<exists>r. handleCloudflareChallenge stuck_page = Inr r \<and> \<not> ret r"
proof -
  have t: "has_indicator (title_or_empty (stuck_page 0))"
    by code_simp
  have u: "s_url (stuck_page t) = Inr indeed_url" for t
    by (simp add: stuck_page_def stuck_snapshot_def)
  have m: "\<not> sel_results_or_searchform (stuck_page t)" for t
    by (simp add: stuck_page_def stuck_snapshot_def sel_results_or_searchform_def)
  have i: "has_indicator T" if "s_title (stuck_page t) = Inr T" for t T
    using that t by (simp add: stuck_page_def stuck_snapshot_def title_or_empty_def)
  have "ret (poll_loop stuck_page indeed_url 0 0) = False
      \<and> exit_at (poll_loop stuck_page indeed_url 0 0) = TimedOut
      \<and> rounds (poll_loop stuck_page indeed_url 0 0) = maxAttempts"
    by (rule poll_loop_stuck [OF u m i]) (simp_all add: maxAttempts_def)
  moreover have "handleCloudflareChallenge stuck_page = Inr (poll_loop stuck_page indeed_url 0 0)"
    using t u [of 0]
    by (simp add: handleCloudflareChallenge_def handleCloudflareChallenge_try_def)
  ultimately show ?thesis by simp
qed

text \<open>
  A run that reaches the challenge check and fails it, with retries left: the
  handler closes the page and throws, its own \<open>catch\<close> counts a failure, and the
  handler returns.
\<close>

lemma failed_challenge_is_caught:
  assumes task: "userData req = Search task" "isFirstPage task"
    and stealth: "stealth_error env = None"
    and search: "performIndeedSearch (search env)"
    and challenge: "handleCloudflareChallenge (view env) = Inr r" "\<not> ret r"
    and retries: "retryCount req < 2"
  shows "requestHandler excl sal req env st =
     \<lparr>rejected = None,
      exit_h = ErrorCaught ''Cloudflare challenge failed - retrying with new session'',
      final = st\<lparr>processedUrls := processedUrls st + 1, failedUrls := failedUrls st + 1\<rparr>,
      performed = [ClosePage]\<rparr>"
  using assms
  by (simp add: requestHandler_def requestHandler_try_def after_navigation_def count_failure_def)

lemma timeout_run_facts:
  "isFirstPage chef_task"
  "stealth_error timeout_run = None"
  "performIndeedSearch (search timeout_run)"
  "view timeout_run = stuck_page"
  "third_time_lucky 0 = timeout_run"
  by (simp_all add: chef_task_def make_task_def timeout_run_def good_run_def good_search_def
        third_time_lucky_def performIndeedSearch_def performIndeedSearch_try_def and_then_def)

text \<open>
  Claim C1 on the code. The claim reads: a task whose challenge check fails with
  retries left is run again on a new session, so that a task whose challenge times
  out twice and is passed the third time ends as done, after two session
  replacements. The handler does close the page and throw
  (\<open>// Throw error to trigger retry with new session\<close>), but the \<open>throw\<close> sits
  inside the handler's own \<open>try\<close>: the \<open>catch\<close> at the end of the handler counts
  a failure and the handler returns, so the crawler sees a request that was handled.
  On the task of the claim the first time-out ends the task: one run, one failure
  counted, no job, no second run.
\<close>

theorem first_timeout_ends_the_task:
  "crawl_request excludes_aramark no_salary_name (Search chef_task) third_time_lucky 0
     empty_state [] =
   \<lparr>runs = 1,
    last_exit = ErrorCaught ''Cloudflare challenge failed - retrying with new session'',
    gave_up = False,
    result = \<lparr>allJobs = [], processedUrls = 1, failedUrls = 1\<rparr>,
    all_performed = [ClosePage]\<rparr>"
proof -
  obtain r where r: "handleCloudflareChallenge (view timeout_run) = Inr r" "\<not> ret r"
    using stuck_page_unresolved timeout_run_facts(4) by auto
  have "requestHandler excludes_aramark no_salary_name
          \<lparr>userData = Search chef_task, retryCount = 0\<rparr> timeout_run empty_state =
     \<lparr>rejected = None,
      exit_h = ErrorCaught ''Cloudflare challenge failed - retrying with new session'',
      final = empty_state\<lparr>processedUrls := processedUrls empty_state + 1,
                          failedUrls := failedUrls empty_state + 1\<rparr>,
      performed = [ClosePage]\<rparr>"
    by (rule failed_challenge_is_caught [OF _ timeout_run_facts(1,2,3) r]) simp_all
  then show ?thesis
    by (simp add: crawl_request_single_run timeout_run_facts(5) empty_state_def)
qed


section \<open>Properties of the aggregation API client\<close>

subsection \<open>Lower case and trimming\<close>

lemma is_space_toLowerCase_char: "is_space (toLowerCase_char c) = is_space c"
  by (simp add: is_space_def white_space_def toLowerCase_char_def upper_letters_def
        lower_letters_def latin1_upper_def latin1_lower_def)

lemma dropWhile_toLowerCase:
  "dropWhile is_space (toLowerCase s) = toLowerCase (dropWhile is_space s)"
  by (induction s) (simp_all add: toLowerCase_def is_space_toLowerCase_char)

lemma rev_toLowerCase: "rev (toLowerCase s) = toLowerCase (rev s)"
  by (simp add: toLowerCase_def rev_map)

lemma trim_toLowerCase: "trim (toLowerCase s) = toLowerCase (trim s)"
  by (simp add: trim_def dropWhile_toLowerCase rev_toLowerCase)

text \<open>
  On concrete strings: the no-break space is trimmed, tab and space too, and the
  upper case letters beyond \<open>Z\<close> are mapped while the multiplication sign
  (\<open>CHR 0xD7\<close>) and the sharp s (\<open>CHR 0xDF\<close>) are not.
\<close>

lemma trim_examples:
  "trim ([CHR 0xA0, CHR 0x09] @ ''Blue Hill '' @ [CHR 0xA0]) = ''Blue Hill''"
  "trim [CHR 0xA0, CHR 0x20] = []"
  "trim ''a b'' = ''a b''"
  by code_simp+

lemma toLowerCase_examples:
  "toLowerCase ''Hilton Hotels 24/7'' = ''hilton hotels 24/7''"
  "toLowerCase [CHR 0xC0, CHR 0xC9, CHR 0xD6, CHR 0xD7, CHR 0xD8, CHR 0xDE, CHR 0xDF] =
     [CHR 0xE0, CHR 0xE9, CHR 0xF6, CHR 0xD7, CHR 0xF8, CHR 0xFE, CHR 0xDF]"
  by code_simp+

subsection \<open>E-mail addresses\<close>

lemma Set_add_all_set: "set (Set_add_all seen xs) = set seen \<union> set xs"
  by (induction xs arbitrary: seen) auto

lemma Set_add_all_distinct: "distinct seen \<Longrightarrow> distinct (Set_add_all seen xs)"
  by (induction xs arbitrary: seen) auto

text \<open>
  Claim C10. For every input (a string, or \<open>null\<close>/\<open>undefined\<close>),
  \<open>extractEmailsFromText\<close> returns a list without duplicates in which no address,
  put in lower case, contains \<open>noreply\<close>, \<open>no-reply\<close>, \<open>donotreply\<close>,
  \<open>support\<close> or \<open>help\<close>; for \<open>null\<close>, \<open>undefined\<close> and the empty string it
  returns the empty list.
\<close>

theorem extractEmailsFromText_filtered_unique:
  "distinct (extractEmailsFromText text)
   \<and> (\<forall>email \<in> set (extractEmailsFromText text).
          \<not> str_includes (toLowerCase email) ''noreply''
        \<and> \<not> str_includes (toLowerCase email) ''no-reply''
        \<and> \<not> str_includes (toLowerCase email) ''donotreply''
        \<and> \<not> str_includes (toLowerCase email) ''support''
        \<and> \<not> str_includes (toLowerCase email) ''help'')
   \<and> extractEmailsFromText None = []
   \<and> extractEmailsFromText (Some []) = []"
proof (intro conjI ballI)
  show "distinct (extractEmailsFromText text)"
    by (simp add: extractEmailsFromText_def Let_def Set_add_all_distinct split: option.splits)
next
  fix email
  assume "email \<in> set (extractEmailsFromText text)"
  then have "is_contact_email email"
    by (auto simp: extractEmailsFromText_def Let_def Set_add_all_set
             split: option.splits if_splits)
  then show "\<not> str_includes (toLowerCase email) ''noreply''"
    "\<not> str_includes (toLowerCase email) ''no-reply''"
    "\<not> str_includes (toLowerCase email) ''donotreply''"
    "\<not> str_includes (toLowerCase email) ''support''"
    "\<not> str_includes (toLowerCase email) ''help''"
    by (simp_all add: is_contact_email_def Let_def)
next
  show "extractEmailsFromText None = []" by (simp add: extractEmailsFromText_def)
  show "extractEmailsFromText (Some []) = []" by (simp add: extractEmailsFromText_def)
qed

text \<open>
  The theorem at a text with four addresses: one occurs twice, one is a
  \<open>noreply\<close> address.
\<close>

lemma description_emails:
  "extractEmailsFromText (Some description_text) = [''Chef.Anna@bluehill.com'', ''jobs@bluehill.com'']"
  by code_simp

theorem extractEmailsFromText_filtered_unique_witness:
  "extractEmailsFromText (Some description_text) = [''Chef.Anna@bluehill.com'', ''jobs@bluehill.com'']
   \<and> distinct (extractEmailsFromText (Some description_text))
   \<and> \<not> str_includes (toLowerCase ''jobs@bluehill.com'') ''noreply''"
proof -
  have "''jobs@bluehill.com'' \<in> set (extractEmailsFromText (Some description_text))"
    by (simp add: description_emails)
  with extractEmailsFromText_filtered_unique [of "Some description_text"]
  have "distinct (extractEmailsFromText (Some description_text))"
    and "\<not> str_includes (toLowerCase ''jobs@bluehill.com'') ''noreply''"
    by (fast, fast)
  then show ?thesis using description_emails by simp
qed

subsection \<open>Duplicates\<close>

lemma dedup_loop_append: "dedup_loop (xs @ ys) d = dedup_loop ys (dedup_loop xs d)"
  by (induction xs arbitrary: d) simp_all

lemma dedup_loop_seen: "seenJobs (dedup_loop jobs d) = seenJobs d \<union> jobKey ` set jobs"
  by (induction jobs arbitrary: d) auto

lemma return_Nil: "scrapeJobsWithIndeedScraper_return [] = []"
  by (simp add: scrapeJobsWithIndeedScraper_return_def)

lemma return_snoc:
  "scrapeJobsWithIndeedScraper_return (jobs @ [job]) =
     (if jobKey job \<in> jobKey ` set jobs
      then scrapeJobsWithIndeedScraper_return jobs
      else scrapeJobsWithIndeedScraper_return jobs @ [job])"
  by (simp add: scrapeJobsWithIndeedScraper_return_def dedup_loop_append dedup_loop_seen)

lemma return_keys:
  "jobKey ` set (scrapeJobsWithIndeedScraper_return jobs) = jobKey ` set jobs"
  by (induction jobs rule: rev_induct) (auto simp: return_Nil return_snoc)

lemma return_distinct: "distinct (map jobKey (scrapeJobsWithIndeedScraper_return jobs))"
proof (induction jobs rule: rev_induct)
  case Nil
  show ?case by (simp add: return_Nil)
next
  case (snoc job jobs)
  have "jobKey job \<notin> jobKey ` set jobs \<Longrightarrow>
        jobKey job \<notin> set (map jobKey (scrapeJobsWithIndeedScraper_return jobs))"
    using return_keys [of jobs] by simp
  then show ?case using snoc.IH by (simp add: return_snoc)
qed

text \<open>The positions of the first occurrences of the keys.\<close>

lemma first_positions_snoc:
  "filter (\<lambda>i. \<forall>j<i. jobKey ((jobs @ [job]) ! j) \<noteq> jobKey ((jobs @ [job]) ! i))
     [0 ..< length (jobs @ [job])] =
   filter (\<lambda>i. \<forall>j<i. jobKey (jobs ! j) \<noteq> jobKey (jobs ! i)) [0 ..< length jobs]
   @ (if jobKey job \<in> jobKey ` set jobs then [] else [length jobs])"
proof -
  have a: "filter (\<lambda>i. \<forall>j<i. jobKey ((jobs @ [job]) ! j) \<noteq> jobKey ((jobs @ [job]) ! i))
             [0 ..< length jobs] =
           filter (\<lambda>i. \<forall>j<i. jobKey (jobs ! j) \<noteq> jobKey (jobs ! i)) [0 ..< length jobs]"
    by (rule filter_cong) (auto simp: nth_append)
  have b: "(\<forall>j<length jobs. jobKey ((jobs @ [job]) ! j) \<noteq> jobKey ((jobs @ [job]) ! length jobs))
           \<longleftrightarrow> jobKey job \<notin> jobKey ` set jobs"
  proof
    assume l: "\<forall>j<length jobs. jobKey ((jobs @ [job]) ! j) \<noteq> jobKey ((jobs @ [job]) ! length jobs)"
    show "jobKey job \<notin> jobKey ` set jobs"
    proof
      assume "jobKey job \<in> jobKey ` set jobs"
      then obtain j where "j < length jobs" "jobKey (jobs ! j) = jobKey job"
        by (auto simp: in_set_conv_nth)
      then show False using l by (auto simp: nth_append)
    qed
  next
    assume "jobKey job \<notin> jobKey ` set jobs"
    then have "jobKey (jobs ! j) \<noteq> jobKey job" if "j < length jobs" for j
      using that by (metis imageI nth_mem)
    then show "\<forall>j<length jobs. jobKey ((jobs @ [job]) ! j) \<noteq> jobKey ((jobs @ [job]) ! length jobs)"
      by (simp add: nth_append)
  qed
  show ?thesis using a b by simp
qed

lemma return_first_occurrences:
  "scrapeJobsWithIndeedScraper_return jobs =
     map (\<lambda>i. jobs ! i)
       (filter (\<lambda>i. \<forall>j<i. jobKey (jobs ! j) \<noteq> jobKey (jobs ! i)) [0 ..< length jobs])"
proof (induction jobs rule: rev_induct)
  case Nil
  show ?case by (simp add: return_Nil)
next
  case (snoc job jobs)
  have "map (\<lambda>i. (jobs @ [job]) ! i)
          (filter (\<lambda>i. \<forall>j<i. jobKey (jobs ! j) \<noteq> jobKey (jobs ! i)) [0 ..< length jobs])
        = map (\<lambda>i. jobs ! i)
          (filter (\<lambda>i. \<forall>j<i. jobKey (jobs ! j) \<noteq> jobKey (jobs ! i)) [0 ..< length jobs])"
    by (rule map_cong) (auto simp: nth_append)
  then show ?case
    using snoc.IH by (simp only: first_positions_snoc return_snoc map_append) simp
qed

text \<open>
  Claim C9. For every accumulated job list, the jobs that
  \<open>scrapeJobsWithIndeedScraper\<close> returns have pairwise distinct keys; the returned
  list holds, in accumulation order, exactly the jobs at the positions where a key
  occurs first (a job whose key an earlier job has is dropped); and the key of a job
  is \<open>lowercase(trim(company)) + '|' + lowercase(trim(title))\<close>, with \<open>unknown\<close>
  in the place of a company or title that is missing (or empty).
\<close>

theorem scrapeJobsWithIndeedScraper_unique_keys:
  "distinct (map jobKey (scrapeJobsWithIndeedScraper_return jobs))
   \<and> scrapeJobsWithIndeedScraper_return jobs =
       map (\<lambda>i. jobs ! i)
         (filter (\<lambda>i. \<forall>j<i. jobKey (jobs ! j) \<noteq> jobKey (jobs ! i)) [0 ..< length jobs])
   \<and> jobKey job =
       toLowerCase (trim (case nj_company job of
                            None \<Rightarrow> ''unknown''
                          | Some company \<Rightarrow> if company = [] then ''unknown'' else company))
       @ ''|''
       @ toLowerCase (trim (case nj_title job of
                              None \<Rightarrow> ''unknown''
                            | Some title \<Rightarrow> if title = [] then ''unknown'' else title))"
  using return_distinct return_first_occurrences
  by (simp add: jobKey_def or_unknown_def trim_toLowerCase)

text \<open>
  The theorem at seven accumulated jobs: three of them repeat the key of an
  earlier job and are dropped.
\<close>

lemma seven_jobs_keys:
  "map jobKey seven_jobs =
     [''hilton|executive chef'', ''marriott|line cook'', ''hilton|executive chef'',
      ''caf'' @ [CHR 0xE9] @ '' royal|barista'', ''caf'' @ [CHR 0xE9] @ '' royal|barista'',
      ''unknown|unknown'', ''unknown|unknown'']"
  by code_simp

lemma seven_jobs_return:
  "scrapeJobsWithIndeedScraper_return seven_jobs =
     [hilton_chef, marriott_cook, cafe_barista, nameless_job]"
  by code_simp

theorem scrapeJobsWithIndeedScraper_unique_keys_witness:
  "scrapeJobsWithIndeedScraper_return seven_jobs =
     [hilton_chef, marriott_cook, cafe_barista, nameless_job]
   \<and> map jobKey seven_jobs =
     [''hilton|executive chef'', ''marriott|line cook'', ''hilton|executive chef'',
      ''caf'' @ [CHR 0xE9] @ '' royal|barista'', ''caf'' @ [CHR 0xE9] @ '' royal|barista'',
      ''unknown|unknown'', ''unknown|unknown'']
   \<and> distinct (map jobKey (scrapeJobsWithIndeedScraper_return seven_jobs))"
proof -
  have "distinct (map jobKey (scrapeJobsWithIndeedScraper_return seven_jobs))"
    using scrapeJobsWithIndeedScraper_unique_keys [of seven_jobs] by (rule conjunct1)
  then show ?thesis using seven_jobs_return seven_jobs_keys by simp
qed


end
